theory Spec2Isabelle
  imports Complex_Main "HOL-Library.Word" "HOL-Library.Multiset"
begin

section \<open>Numbers of the program\<close>

text \<open>
  The integers of \<^verbatim>\<open>main.cpp\<close> are \<^verbatim>\<open>uint32_t\<close>: health, damage, the waypoint index of a
  monster, the target index of a bullet, the kill counter and the player's health. They are
  32-bit words here, so that \<^verbatim>\<open>-=\<close> and \<^verbatim>\<open>++\<close> wrap around as they do in C++.
\<close>

type_synonym u32 = "32 word"

text \<open>
  The \<^verbatim>\<open>float\<close> values are modelled without rounding: a value is either a real number or
  the not-a-number that \<^verbatim>\<open>0.0f / 0.0f\<close> produces. Every operation propagates not-a-number,
  and every comparison with not-a-number is false, as in IEEE 754. The program has a single
  division, the one by \<^verbatim>\<open>magnitude\<close> in \<^verbatim>\<open>Normalize\<close>; in exact arithmetic that divisor is
  zero only when both dividends are zero too (lemma \<open>Magnitude_zero\<close> below), so the
  model has no infinities. In binary32 the square of a very small number underflows to
  zero; on such inputs the program divides a non-zero number by zero, and the model does
  not describe them.
\<close>

datatype float = Fin real | NaN

fun fadd :: "float \<Rightarrow> float \<Rightarrow> float" where
  "fadd (Fin a) (Fin b) = Fin (a + b)"
| "fadd _ _ = NaN"

fun fsub :: "float \<Rightarrow> float \<Rightarrow> float" where
  "fsub (Fin a) (Fin b) = Fin (a - b)"
| "fsub _ _ = NaN"

fun fmul :: "float \<Rightarrow> float \<Rightarrow> float" where
  "fmul (Fin a) (Fin b) = Fin (a * b)"
| "fmul _ _ = NaN"

fun fdiv :: "float \<Rightarrow> float \<Rightarrow> float" where
  "fdiv (Fin a) (Fin b) = (if b = 0 then NaN else Fin (a / b))"
| "fdiv _ _ = NaN"

fun sqrtf :: "float \<Rightarrow> float" where
  "sqrtf (Fin a) = (if a < 0 then NaN else Fin (sqrt a))"
| "sqrtf NaN = NaN"

fun fle :: "float \<Rightarrow> float \<Rightarrow> bool" where
  "fle (Fin a) (Fin b) = (a \<le> b)"
| "fle _ _ = False"

fun fge :: "float \<Rightarrow> float \<Rightarrow> bool" where
  "fge (Fin a) (Fin b) = (a \<ge> b)"
| "fge _ _ = False"

definition MONSTER_SPEED :: float where
  "MONSTER_SPEED = Fin 100"

definition BULLET_SPEED :: float where
  "BULLET_SPEED = Fin 150"

definition BULLET_RADIUS :: float where
  "BULLET_RADIUS = Fin 8"

section \<open>Components and entities\<close>

text \<open>
  \<^verbatim>\<open>Position\<close> and \<^verbatim>\<open>Velocity\<close> are both a pair of floats \<^verbatim>\<open>x\<close>, \<^verbatim>\<open>y\<close>. The components with
  the single field \<^verbatim>\<open>value\<close> (\<^verbatim>\<open>Health\<close>, \<^verbatim>\<open>Damage\<close>, \<^verbatim>\<open>AttackRange\<close>, \<^verbatim>\<open>AttackRate\<close>,
  \<^verbatim>\<open>Timer\<close>) are that value. The fields of an entity carry the entity's initial, since
  several entities have a \<^verbatim>\<open>position\<close>.
\<close>

record Position =
  x :: float
  y :: float

type_synonym Velocity = Position

record Monster =
  m_health :: u32
  m_position :: Position
  m_velocity :: Velocity
  m_waypoint_index :: u32
  m_damage :: u32

record Waypoint =
  w_position :: Position

record Tower =
  t_position :: Position
  t_range :: float
  t_attackRate :: float
  t_timer :: float

record Bullet =
  b_position :: Position
  b_velocity :: Velocity
  b_damage :: u32
  b_target_index :: u32

text \<open>
  Reading a \<^verbatim>\<open>std::vector\<close> with \<^verbatim>\<open>operator[]\<close> beyond its size is undefined behaviour.
  The model makes it an error value, so that every read of the source is either inside the
  vector or visible as \<open>Inl OutOfBounds\<close>.
\<close>

datatype error = OutOfBounds

definition vec_at :: "'a list \<Rightarrow> nat \<Rightarrow> error + 'a" where
  "vec_at xs i = (if i < length xs then Inr (xs ! i) else Inl OutOfBounds)"

section \<open>Geometry\<close>

definition Distance :: "Position \<Rightarrow> Position \<Rightarrow> float" where
  "Distance pos1 pos2 =
     sqrtf (fadd (fmul (fsub (x pos2) (x pos1)) (fsub (x pos2) (x pos1)))
                 (fmul (fsub (y pos2) (y pos1)) (fsub (y pos2) (y pos1))))"

definition Magnitude :: "float \<Rightarrow> float \<Rightarrow> float" where
  "Magnitude a b = sqrtf (fadd (fmul a a) (fmul b b))"

definition Normalize :: "float \<Rightarrow> float \<Rightarrow> float \<times> float" where
  "Normalize a b = (let magnitude = Magnitude a b in (fdiv a magnitude, fdiv b magnitude))"

section \<open>The monster system\<close>

text \<open>
  \<^verbatim>\<open>UpdateMonster\<close> takes the monster and the player's health by reference and returns
  whether the monster is alive. The model returns the three of them. The last part of the
  function, from the direction vector to \<^verbatim>\<open>return true\<close>, is \<open>UpdateMonster_move\<close>; it
  runs on the monster as the proximity branch left it.
\<close>

definition UpdateMonster_move ::
  "Monster \<Rightarrow> float \<Rightarrow> Waypoint list \<Rightarrow> u32 \<Rightarrow> error + (bool \<times> Monster \<times> u32)" where
  "UpdateMonster_move monster DeltaTime waypoints player_health =
     (case vec_at waypoints (unat (m_waypoint_index monster)) of
        Inl e \<Rightarrow> Inl e
      | Inr w \<Rightarrow>
          let xdir = fsub (x (w_position w)) (x (m_position monster));
              ydir = fsub (y (w_position w)) (y (m_position monster));
              normalized_dir = Normalize xdir ydir;
              px = fadd (x (m_position monster))
                     (fmul (fmul (fst normalized_dir) MONSTER_SPEED) DeltaTime);
              py = fadd (y (m_position monster))
                     (fmul (fmul (snd normalized_dir) MONSTER_SPEED) DeltaTime)
          in Inr (True, monster\<lparr>m_position := \<lparr>x = px, y = py\<rparr>\<rparr>, player_health))"

definition UpdateMonster ::
  "Monster \<Rightarrow> float \<Rightarrow> Waypoint list \<Rightarrow> u32 \<Rightarrow> error + (bool \<times> Monster \<times> u32)" where
  "UpdateMonster monster DeltaTime waypoints player_health =
     (if m_health monster \<le> 0 then Inr (False, monster, player_health)
      else if length waypoints = 1 then Inr (False, monster, player_health)
      else
        (case vec_at waypoints (unat (m_waypoint_index monster)) of
           Inl e \<Rightarrow> Inl e
         | Inr w \<Rightarrow>
             if fle (Distance (m_position monster) (w_position w)) (Fin 2) then
               if length waypoints - 1 = unat (m_waypoint_index monster)
               then Inr (False, monster, player_health - m_damage monster)
               else UpdateMonster_move
                      (monster\<lparr>m_waypoint_index := m_waypoint_index monster + 1\<rparr>)
                      DeltaTime waypoints player_health
             else UpdateMonster_move monster DeltaTime waypoints player_health))"

section \<open>The tower system\<close>

text \<open>
  The \<^verbatim>\<open>for\<close> loop of \<^verbatim>\<open>UpdateTower\<close> is \<open>UpdateTower_scan\<close>, started at index 0 on the
  tower whose timer has taken \<^verbatim>\<open>DeltaTime\<close>. The loop counters of the program are
  \<^verbatim>\<open>uint32_t\<close> compared with a \<^verbatim>\<open>size_t\<close>; they are natural numbers here, which is the same
  as long as a vector holds fewer than \<open>2 ^ 32\<close> records. Where a counter is stored in a
  \<^verbatim>\<open>uint32_t\<close> field the model converts it with \<open>of_nat\<close>.
\<close>

function UpdateTower_scan ::
  "Tower \<Rightarrow> Monster list \<Rightarrow> Bullet list \<Rightarrow> nat \<Rightarrow> Tower \<times> Bullet list" where
  "UpdateTower_scan tower monsters bullets i =
     (if i < length monsters then
        if fle (Distance (t_position tower) (m_position (monsters ! i))) (t_range tower) then
          if fge (t_timer tower) (t_attackRate tower) then
            (tower\<lparr>t_timer := Fin 0\<rparr>,
             bullets @ [\<lparr>b_position = \<lparr>x = x (t_position tower), y = y (t_position tower)\<rparr>,
                         b_velocity = \<lparr>x = Fin 0, y = Fin 0\<rparr>,
                         b_damage = 50,
                         b_target_index = of_nat i\<rparr>])
          else UpdateTower_scan tower monsters bullets (i + 1)
        else UpdateTower_scan tower monsters bullets (i + 1)
      else (tower, bullets))"
  by pat_completeness auto
termination
  by (relation "measure (\<lambda>(tower, monsters, bullets, i). length monsters - i)") auto

definition UpdateTower ::
  "Tower \<Rightarrow> float \<Rightarrow> Monster list \<Rightarrow> Bullet list \<Rightarrow> Tower \<times> Bullet list" where
  "UpdateTower tower DeltaTime monsters bullets =
     UpdateTower_scan (tower\<lparr>t_timer := fadd (t_timer tower) DeltaTime\<rparr>) monsters bullets 0"

section \<open>The bullet system\<close>

text \<open>
  \<^verbatim>\<open>UpdateBullet\<close> changes the bullet and the monsters in place and returns whether the
  bullet is alive; the model returns the three of them.
\<close>

definition UpdateBullet ::
  "Bullet \<Rightarrow> float \<Rightarrow> Monster list \<Rightarrow> error + (bool \<times> Bullet \<times> Monster list)" where
  "UpdateBullet bullet DeltaTime monsters =
     (if length monsters = 0 then Inr (False, bullet, monsters)
      else
        let bullet1 =
              (if unat (b_target_index bullet) \<ge> length monsters \<and> length monsters \<noteq> 0
               then bullet\<lparr>b_target_index := of_nat (length monsters) - 1\<rparr>
               else bullet)
        in (case vec_at monsters (unat (b_target_index bullet1)) of
              Inl e \<Rightarrow> Inl e
            | Inr target \<Rightarrow>
                let xdir = fsub (x (m_position target)) (x (b_position bullet1));
                    ydir = fsub (y (m_position target)) (y (b_position bullet1));
                    normalized_dir = Normalize xdir ydir;
                    px = fadd (x (b_position bullet1))
                           (fmul (fmul (fst normalized_dir) BULLET_SPEED) DeltaTime);
                    py = fadd (y (b_position bullet1))
                           (fmul (fmul (snd normalized_dir) BULLET_SPEED) DeltaTime);
                    bullet2 = bullet1\<lparr>b_position := \<lparr>x = px, y = py\<rparr>\<rparr>
                in if fle (Distance (b_position bullet2) (m_position target)) BULLET_RADIUS
                   then Inr (False, bullet2,
                             monsters[unat (b_target_index bullet2) :=
                               target\<lparr>m_health := m_health target - b_damage bullet2\<rparr>])
                   else Inr (True, bullet2, monsters)))"

section \<open>The update part of the main loop\<close>

text \<open>
  Removal of a dead monster, as the body of the \<^verbatim>\<open>if\<close> in the first loop of \<^verbatim>\<open>main\<close> does
  it: each field of \<^verbatim>\<open>monsters[i]\<close> is assigned from \<^verbatim>\<open>monsters[last]\<close>, then
  \<^verbatim>\<open>pop_back\<close>. The loop calls it with \<open>i\<close> inside the vector.
\<close>

definition remove_monster :: "nat \<Rightarrow> Monster list \<Rightarrow> Monster list" where
  "remove_monster i monsters =
     (let last = length monsters - 1 in
      butlast (monsters[i := (monsters ! i)
        \<lparr>m_health := m_health (monsters ! last),
         m_position := (m_position (monsters ! i))
            \<lparr>x := x (m_position (monsters ! last)), y := y (m_position (monsters ! last))\<rparr>,
         m_velocity := (m_velocity (monsters ! i))
            \<lparr>x := x (m_velocity (monsters ! last)), y := y (m_velocity (monsters ! last))\<rparr>,
         m_waypoint_index := m_waypoint_index (monsters ! last),
         m_damage := m_damage (monsters ! last)\<rparr>]))"

definition remove_bullet :: "nat \<Rightarrow> Bullet list \<Rightarrow> Bullet list" where
  "remove_bullet i bullets =
     (let last = length bullets - 1 in
      butlast (bullets[i := (bullets ! i)
        \<lparr>b_position := (b_position (bullets ! i))
            \<lparr>x := x (b_position (bullets ! last)), y := y (b_position (bullets ! last))\<rparr>,
         b_damage := b_damage (bullets ! last),
         b_velocity := (b_velocity (bullets ! i))
            \<lparr>x := x (b_velocity (bullets ! last)), y := y (b_velocity (bullets ! last))\<rparr>,
         b_target_index := b_target_index (bullets ! last)\<rparr>]))"

text \<open>
  The three loops. Each takes the index \<open>i\<close> at which it stands; \<^verbatim>\<open>main\<close> starts them
  at 0. After a removal the source decrements \<^verbatim>\<open>i\<close> and the loop header increments it again,
  so the next iteration runs at the same index.
\<close>

function update_monsters ::
  "nat \<Rightarrow> Monster list \<Rightarrow> float \<Rightarrow> Waypoint list \<Rightarrow> u32 \<Rightarrow> u32
     \<Rightarrow> error + (Monster list \<times> u32 \<times> u32)" where
  "update_monsters i monsters DeltaTime waypoints player_health monsters_killed =
     (if i < length monsters then
        (case UpdateMonster (monsters ! i) DeltaTime waypoints player_health of
           Inl e \<Rightarrow> Inl e
         | Inr (alive, monster', player_health') \<Rightarrow>
             if \<not> alive then
               update_monsters i (remove_monster i (monsters[i := monster']))
                 DeltaTime waypoints player_health' (monsters_killed + 1)
             else
               update_monsters (i + 1) (monsters[i := monster'])
                 DeltaTime waypoints player_health' monsters_killed)
      else Inr (monsters, player_health, monsters_killed))"
  by pat_completeness auto
termination
  by (relation "measure (\<lambda>(i, monsters, DeltaTime, waypoints, player_health, monsters_killed).
                  length monsters - i)")
     (auto simp: remove_monster_def Let_def)

function update_towers ::
  "nat \<Rightarrow> Tower list \<Rightarrow> float \<Rightarrow> Monster list \<Rightarrow> Bullet list \<Rightarrow> Tower list \<times> Bullet list" where
  "update_towers i towers DeltaTime monsters bullets =
     (if i < length towers then
        (case UpdateTower (towers ! i) DeltaTime monsters bullets of
           (tower', bullets') \<Rightarrow>
             update_towers (i + 1) (towers[i := tower']) DeltaTime monsters bullets')
      else (towers, bullets))"
  by pat_completeness auto
termination
  by (relation "measure (\<lambda>(i, towers, DeltaTime, monsters, bullets). length towers - i)") auto

function update_bullets ::
  "nat \<Rightarrow> Bullet list \<Rightarrow> float \<Rightarrow> Monster list \<Rightarrow> error + (Bullet list \<times> Monster list)" where
  "update_bullets i bullets DeltaTime monsters =
     (if i < length bullets then
        (case UpdateBullet (bullets ! i) DeltaTime monsters of
           Inl e \<Rightarrow> Inl e
         | Inr (alive, bullet', monsters') \<Rightarrow>
             if \<not> alive then
               update_bullets i (remove_bullet i (bullets[i := bullet'])) DeltaTime monsters'
             else
               update_bullets (i + 1) (bullets[i := bullet']) DeltaTime monsters')
      else Inr (bullets, monsters))"
  by pat_completeness auto
termination
  by (relation "measure (\<lambda>(i, bullets, DeltaTime, monsters). length bullets - i)")
     (auto simp: remove_bullet_def Let_def)

text \<open>
  The vectors and counters that \<^verbatim>\<open>main\<close> owns, and one pass of its \<^verbatim>\<open>while\<close> loop from
  "Update monsters" to the game-over test: the flag of the result is true where \<^verbatim>\<open>main\<close>
  returns 1.
\<close>

record Game =
  g_monsters :: "Monster list"
  g_waypoints :: "Waypoint list"
  g_towers :: "Tower list"
  g_bullets :: "Bullet list"
  g_monsters_killed :: u32
  g_player_health :: u32

definition main_update :: "Game \<Rightarrow> float \<Rightarrow> error + (Game \<times> bool)" where
  "main_update g DeltaTime =
     (case update_monsters 0 (g_monsters g) DeltaTime (g_waypoints g)
             (g_player_health g) (g_monsters_killed g) of
        Inl e \<Rightarrow> Inl e
      | Inr (ms, ph, killed) \<Rightarrow>
          (case update_towers 0 (g_towers g) DeltaTime ms (g_bullets g) of
             (ts, bs) \<Rightarrow>
               (case update_bullets 0 bs DeltaTime ms of
                  Inl e \<Rightarrow> Inl e
                | Inr (bs', ms') \<Rightarrow>
                    Inr (g\<lparr>g_monsters := ms', g_towers := ts, g_bullets := bs',
                            g_monsters_killed := killed, g_player_health := ph\<rparr>,
                         ph = 0))))"

text \<open>
  The records as the program creates them: \<^verbatim>\<open>main\<close> spawns a monster with health 100
  and damage 5 and builds a tower with range 100, attack rate 1.5 and timer 0;
  \<^verbatim>\<open>UpdateTower\<close> emits a bullet with velocity 0 and damage 50. The abbreviations leave the
  fields open that the examples below vary.
\<close>

abbreviation xy :: "real \<Rightarrow> real \<Rightarrow> Position" where
  "xy a b \<equiv> \<lparr>x = Fin a, y = Fin b\<rparr>"

abbreviation monster_at :: "u32 \<Rightarrow> real \<Rightarrow> real \<Rightarrow> u32 \<Rightarrow> Monster" where
  "monster_at h a b idx \<equiv>
     \<lparr>m_health = h, m_position = xy a b, m_velocity = xy 0 0,
      m_waypoint_index = idx, m_damage = 5\<rparr>"

abbreviation waypoint_at :: "real \<Rightarrow> real \<Rightarrow> Waypoint" where
  "waypoint_at a b \<equiv> \<lparr>w_position = xy a b\<rparr>"

abbreviation tower_at :: "real \<Rightarrow> real \<Rightarrow> real \<Rightarrow> Tower" where
  "tower_at a b timer \<equiv>
     \<lparr>t_position = xy a b, t_range = Fin 100, t_attackRate = Fin (3 / 2), t_timer = Fin timer\<rparr>"

abbreviation bullet_at :: "real \<Rightarrow> real \<Rightarrow> u32 \<Rightarrow> Bullet" where
  "bullet_at a b idx \<equiv>
     \<lparr>b_position = xy a b, b_velocity = xy 0 0, b_damage = 50, b_target_index = idx\<rparr>"

declare UpdateTower_scan.simps [simp del]
declare update_monsters.simps [simp del]
declare update_towers.simps [simp del]
declare update_bullets.simps [simp del]

section \<open>Facts about the geometry\<close>

lemma Magnitude_zero: "Magnitude a b = Fin 0 \<Longrightarrow> a = Fin 0 \<and> b = Fin 0"
  by (cases a; cases b) (auto simp: Magnitude_def split: if_splits)

section \<open>Facts about one monster update\<close>

lemma UpdateMonster_move_Inr:
  "UpdateMonster_move monster DeltaTime waypoints player_health =
     Inr (alive, monster', player_health')
   \<Longrightarrow> alive \<and> player_health' = player_health
       \<and> m_waypoint_index monster' = m_waypoint_index monster
       \<and> m_health monster' = m_health monster
       \<and> unat (m_waypoint_index monster) < length waypoints"
  by (auto simp: UpdateMonster_move_def vec_at_def Let_def split: if_splits)

lemma unat_incr_le: "unat (w + 1 :: u32) \<le> unat w + 1"
  by (simp add: unat_word_ariths)

lemmas eval_defs =
  UpdateMonster_def UpdateMonster_move_def UpdateBullet_def vec_at_def Distance_def
  Normalize_def Magnitude_def MONSTER_SPEED_def BULLET_SPEED_def BULLET_RADIUS_def Let_def

text \<open>
  C2, as the code has it. With at least two waypoints, a monster of positive health whose
  targeted waypoint is the last one and lies within 2.0 of it is reported dead, and the
  player's health goes down by the monster's damage, once; as a number it is smaller by
  exactly that damage when the damage does not exceed it. No other path of
  \<open>UpdateMonster\<close> changes the player's health: a call that returns a different health
  has taken this one.
\<close>

theorem UpdateMonster_arrival:
  "(0 < m_health monster \<and> 2 \<le> length waypoints \<and>
    unat (m_waypoint_index monster) = length waypoints - 1 \<and>
    fle (Distance (m_position monster) (w_position (last waypoints))) (Fin 2) \<and>
    m_damage monster \<le> player_health \<longrightarrow>
      UpdateMonster monster DeltaTime waypoints player_health =
        Inr (False, monster, player_health - m_damage monster) \<and>
      unat (player_health - m_damage monster) = unat player_health - unat (m_damage monster))
   \<and>
   (\<forall>alive monster' player_health'.
      UpdateMonster monster DeltaTime waypoints player_health =
        Inr (alive, monster', player_health') \<and>
      player_health' \<noteq> player_health \<longrightarrow>
        \<not> alive \<and> 0 < m_health monster \<and> 2 \<le> length waypoints \<and>
        unat (m_waypoint_index monster) = length waypoints - 1 \<and>
        fle (Distance (m_position monster) (w_position (last waypoints))) (Fin 2) \<and>
        player_health' = player_health - m_damage monster)"
proof (intro conjI impI allI)
  assume a: "0 < m_health monster \<and> 2 \<le> length waypoints \<and>
    unat (m_waypoint_index monster) = length waypoints - 1 \<and>
    fle (Distance (m_position monster) (w_position (last waypoints))) (Fin 2) \<and>
    m_damage monster \<le> player_health"
  then have ne: "waypoints \<noteq> []" by auto
  from a have idx: "unat (m_waypoint_index monster) < length waypoints" by auto
  from a ne have "waypoints ! unat (m_waypoint_index monster) = last waypoints"
    by (simp add: last_conv_nth)
  with a idx show "UpdateMonster monster DeltaTime waypoints player_health =
        Inr (False, monster, player_health - m_damage monster)"
    by (auto simp: UpdateMonster_def vec_at_def)
  from a show "unat (player_health - m_damage monster) =
        unat player_health - unat (m_damage monster)"
    by (simp add: unat_sub)
next
  fix alive monster' player_health'
  assume b: "UpdateMonster monster DeltaTime waypoints player_health =
        Inr (alive, monster', player_health') \<and>
      player_health' \<noteq> player_health"
  then have c: "\<not> alive \<and> 0 < m_health monster \<and> length waypoints \<noteq> 1 \<and>
        unat (m_waypoint_index monster) < length waypoints \<and>
        unat (m_waypoint_index monster) = length waypoints - 1 \<and>
        fle (Distance (m_position monster)
               (w_position (waypoints ! unat (m_waypoint_index monster)))) (Fin 2) \<and>
        player_health' = player_health - m_damage monster"
    by (auto simp: UpdateMonster_def vec_at_def word_gt_0 split: if_splits
             dest!: UpdateMonster_move_Inr)
  then have ne: "waypoints \<noteq> []" by auto
  with c have l: "waypoints ! unat (m_waypoint_index monster) = last waypoints"
    by (simp add: last_conv_nth)
  from c have "2 \<le> length waypoints" by arith
  with c l show "\<not> alive" "0 < m_health monster" "2 \<le> length waypoints"
        "unat (m_waypoint_index monster) = length waypoints - 1"
        "fle (Distance (m_position monster) (w_position (last waypoints))) (Fin 2)"
        "player_health' = player_health - m_damage monster"
    by auto
qed

text \<open>
  The theorem at Scenario B: waypoints (0,0) and (10,0), a monster at (9,0) that targets
  the second one, player health 100.
\<close>

theorem UpdateMonster_arrival_witness:
  "UpdateMonster (monster_at 100 9 0 1) (Fin 1) [waypoint_at 0 0, waypoint_at 10 0] 100 =
     Inr (False, monster_at 100 9 0 1, 95) \<and>
   unat (95 :: u32) = unat (100 :: u32) - unat (m_damage (monster_at 100 9 0 1)) \<and>
   fle (Distance (m_position (monster_at 100 9 0 1))
          (w_position (last [waypoint_at 0 0, waypoint_at 10 0]))) (Fin 2)"
proof -
  note t = UpdateMonster_arrival
    [of "monster_at 100 9 0 1" "[waypoint_at 0 0, waypoint_at 10 0]" 100 "Fin 1"]
  have h: "0 < m_health (monster_at 100 9 0 1) \<and>
    2 \<le> length [waypoint_at 0 0, waypoint_at 10 0] \<and>
    unat (m_waypoint_index (monster_at 100 9 0 1)) =
      length [waypoint_at 0 0, waypoint_at 10 0] - 1 \<and>
    fle (Distance (m_position (monster_at 100 9 0 1))
           (w_position (last [waypoint_at 0 0, waypoint_at 10 0]))) (Fin 2) \<and>
    m_damage (monster_at 100 9 0 1) \<le> 100"
    by (simp add: Distance_def)
  from t [THEN conjunct1, rule_format, OF h]
  have r: "UpdateMonster (monster_at 100 9 0 1) (Fin 1) [waypoint_at 0 0, waypoint_at 10 0] 100 =
     Inr (False, monster_at 100 9 0 1, 95)"
    and u: "unat (95 :: u32) = unat (100 :: u32) - unat (m_damage (monster_at 100 9 0 1))"
    by simp_all
  have "(95 :: u32) \<noteq> 100" by simp
  with r t [THEN conjunct2, rule_format, of False "monster_at 100 9 0 1" 95]
  have "fle (Distance (m_position (monster_at 100 9 0 1))
          (w_position (last [waypoint_at 0 0, waypoint_at 10 0]))) (Fin 2)"
    by blast
  with r u show ?thesis by blast
qed

text \<open>
  C2 as the specification words it fails in three places. With the single waypoint of the
  game's start the monster stands on the last waypoint and is reported dead, but the
  player's health stays 100. With waypoints (0,0) and (1,0) a monster at (0,0) that still
  targets the first one is within 2.0 of the last one, and it lives and walks on. And when
  the player's health is 0, an arriving monster of damage 5 leaves 4294967291.
\<close>

theorem UpdateMonster_arrival_counterexample:
  "fle (Distance (m_position (monster_at 100 150 150 0))
          (w_position (last [waypoint_at 150 150]))) (Fin 2) \<and>
   UpdateMonster (monster_at 100 150 150 0) (Fin 0) [waypoint_at 150 150] 100 =
     Inr (False, monster_at 100 150 150 0, 100) \<and>
   fle (Distance (m_position (monster_at 100 0 0 0))
          (w_position (last [waypoint_at 0 0, waypoint_at 1 0]))) (Fin 2) \<and>
   UpdateMonster (monster_at 100 0 0 0) (Fin 0) [waypoint_at 0 0, waypoint_at 1 0] 100 =
     Inr (True, monster_at 100 0 0 1, 100) \<and>
   UpdateMonster (monster_at 100 9 0 1) (Fin 0) [waypoint_at 0 0, waypoint_at 10 0] 0 =
     Inr (False, monster_at 100 9 0 1, 4294967291)"
  by (simp add: eval_defs)

text \<open>
  C3, as the code has it. The guard of \<open>UpdateMonster\<close> tests for exactly one waypoint:
  then a monster of positive health is reported dead, and neither it nor the player's
  health changes.
\<close>

theorem UpdateMonster_single_waypoint:
  "0 < m_health monster \<Longrightarrow> length waypoints = 1 \<Longrightarrow>
   UpdateMonster monster DeltaTime waypoints player_health =
     Inr (False, monster, player_health)"
  by (simp add: UpdateMonster_def)

text \<open>The theorem at Scenario A: the one waypoint (150,150) and a monster spawned on it.\<close>

theorem UpdateMonster_single_waypoint_witness:
  "0 < m_health (monster_at 100 150 150 0) \<and> length [waypoint_at 150 150] = 1 \<and>
   UpdateMonster (monster_at 100 150 150 0) (Fin 1) [waypoint_at 150 150] 100 =
     Inr (False, monster_at 100 150 150 0, 100)"
  using UpdateMonster_single_waypoint
    [of "monster_at 100 150 150 0" "[waypoint_at 150 150]" "Fin 1" 100]
  by simp

text \<open>
  With no waypoint at all the guard does not fire, and the proximity test reads
  \<^verbatim>\<open>waypoints[0]\<close> of an empty vector: the monster is not reported dead.
\<close>

theorem UpdateMonster_no_waypoint_counterexample:
  "0 < m_health (monster_at 100 150 150 0) \<and> length ([] :: Waypoint list) < 2 \<and>
   UpdateMonster (monster_at 100 150 150 0) (Fin 1) [] 100 = Inl OutOfBounds"
  by (simp add: eval_defs)

text \<open>
  C4 fails on the code. The second waypoint is put on the first, (150,150), and a monster
  is spawned there: the proximity branch moves the target to the second waypoint, the
  direction to it is (0,0), \<open>Normalize\<close> divides 0 by the magnitude 0, and the monster
  stays alive at a position that is not a number.
\<close>

theorem UpdateMonster_zero_direction:
  "Magnitude (Fin 0) (Fin 0) = Fin 0 \<and>
   Normalize (Fin 0) (Fin 0) = (NaN, NaN) \<and>
   UpdateMonster (monster_at 100 150 150 0) (Fin 1)
       [waypoint_at 150 150, waypoint_at 150 150] 100 =
     Inr (True, \<lparr>m_health = 100, m_position = \<lparr>x = NaN, y = NaN\<rparr>, m_velocity = xy 0 0,
                 m_waypoint_index = 1, m_damage = 5\<rparr>, 100)"
  by (simp add: eval_defs)

text \<open>
  C9. A monster that survives an update and whose waypoint index was inside the sequence
  of at least two waypoints still has its index inside. The index has grown by at most
  one, and it has changed only by the increment of the proximity branch: the monster was
  within 2.0 of its targeted waypoint and that waypoint was not the last.
\<close>

theorem UpdateMonster_waypoint_index:
  assumes "UpdateMonster monster DeltaTime waypoints player_health =
             Inr (True, monster', player_health')"
    and "unat (m_waypoint_index monster) < length waypoints"
    and "2 \<le> length waypoints"
  shows "unat (m_waypoint_index monster') < length waypoints \<and>
         unat (m_waypoint_index monster') \<le> unat (m_waypoint_index monster) + 1 \<and>
         (m_waypoint_index monster' \<noteq> m_waypoint_index monster \<longrightarrow>
            m_waypoint_index monster' = m_waypoint_index monster + 1 \<and>
            fle (Distance (m_position monster)
                   (w_position (waypoints ! unat (m_waypoint_index monster)))) (Fin 2) \<and>
            unat (m_waypoint_index monster) \<noteq> length waypoints - 1)"
  using assms unat_incr_le [of "m_waypoint_index monster"]
  by (auto simp: UpdateMonster_def vec_at_def split: if_splits
           dest!: UpdateMonster_move_Inr)

text \<open>
  The theorem at a monster on the first of the waypoints (0,0) and (1,0): it survives
  and its index goes from 0 to 1.
\<close>

theorem UpdateMonster_waypoint_index_witness:
  "UpdateMonster (monster_at 100 0 0 0) (Fin 0) [waypoint_at 0 0, waypoint_at 1 0] 100 =
     Inr (True, monster_at 100 0 0 1, 100) \<and>
   unat (m_waypoint_index (monster_at 100 0 0 1)) < length [waypoint_at 0 0, waypoint_at 1 0] \<and>
   m_waypoint_index (monster_at 100 0 0 1) = m_waypoint_index (monster_at 100 0 0 0) + 1"
proof -
  have r: "UpdateMonster (monster_at 100 0 0 0) (Fin 0) [waypoint_at 0 0, waypoint_at 1 0] 100 =
     Inr (True, monster_at 100 0 0 1, 100)"
    by (simp add: eval_defs)
  from UpdateMonster_waypoint_index [OF r] r show ?thesis by simp
qed

section \<open>Facts about one tower update\<close>

lemma Position_eta [simp]: "\<lparr>x = x (p :: Position), y = y p\<rparr> = p"
  by (cases p) simp

lemma UpdateTower_scan_result:
  "UpdateTower_scan tower monsters bullets i = (tower', bullets') \<Longrightarrow>
   (fge (t_timer tower) (t_attackRate tower) \<and>
    (\<exists>j. i \<le> j \<and> j < length monsters \<and>
         fle (Distance (t_position tower) (m_position (monsters ! j))) (t_range tower)) \<longrightarrow>
      (\<exists>k. i \<le> k \<and> k < length monsters \<and>
         fle (Distance (t_position tower) (m_position (monsters ! k))) (t_range tower) \<and>
         (\<forall>j. i \<le> j \<and> j < k \<longrightarrow>
            \<not> fle (Distance (t_position tower) (m_position (monsters ! j))) (t_range tower)) \<and>
         bullets' = bullets @ [\<lparr>b_position = t_position tower, b_velocity = xy 0 0,
                                 b_damage = 50, b_target_index = of_nat k\<rparr>] \<and>
         tower' = tower\<lparr>t_timer := Fin 0\<rparr>)) \<and>
   (\<not> (fge (t_timer tower) (t_attackRate tower) \<and>
       (\<exists>j. i \<le> j \<and> j < length monsters \<and>
         fle (Distance (t_position tower) (m_position (monsters ! j))) (t_range tower))) \<longrightarrow>
      bullets' = bullets \<and> tower' = tower)"
proof (induction tower monsters bullets i rule: UpdateTower_scan.induct)
  case (1 tower monsters bullets i)
  let ?R = "\<lambda>j. fle (Distance (t_position tower) (m_position (monsters ! j))) (t_range tower)"
  show ?case
  proof (cases "i < length monsters")
    case False
    with "1.prems" show ?thesis
      by (simp add: UpdateTower_scan.simps)
  next
    case True
    note lt = True
    show ?thesis
    proof (cases "?R i \<and> fge (t_timer tower) (t_attackRate tower)")
      case True
      with lt "1.prems" have r: "bullets' = bullets @ [\<lparr>b_position = t_position tower, b_velocity = xy 0 0,
                                 b_damage = 50, b_target_index = of_nat i\<rparr>]" "tower' = tower\<lparr>t_timer := Fin 0\<rparr>"
        by (simp_all add: UpdateTower_scan.simps)
      have "i \<le> i \<and> i < length monsters \<and> ?R i \<and> (\<forall>j. i \<le> j \<and> j < i \<longrightarrow> \<not> ?R j)"
        using lt True by auto
      with r True show ?thesis by blast
    next
      case False
      with lt "1.prems" have rec: "UpdateTower_scan tower monsters bullets (i + 1) = (tower', bullets')"
        by (auto simp: UpdateTower_scan.simps [of tower monsters bullets i] split: if_splits)
      have ih: "(fge (t_timer tower) (t_attackRate tower) \<and> (\<exists>j. i + 1 \<le> j \<and> j < length monsters \<and> ?R j) \<longrightarrow>
      (\<exists>k. i + 1 \<le> k \<and> k < length monsters \<and> ?R k \<and> (\<forall>j. i + 1 \<le> j \<and> j < k \<longrightarrow> \<not> ?R j) \<and>
         bullets' = bullets @ [\<lparr>b_position = t_position tower, b_velocity = xy 0 0,
                                 b_damage = 50, b_target_index = of_nat k\<rparr>] \<and>
         tower' = tower\<lparr>t_timer := Fin 0\<rparr>)) \<and>
       (\<not> (fge (t_timer tower) (t_attackRate tower) \<and> (\<exists>j. i + 1 \<le> j \<and> j < length monsters \<and> ?R j)) \<longrightarrow>
          bullets' = bullets \<and> tower' = tower)"
      proof (cases "?R i")
        case True
        with False have nf: "\<not> fge (t_timer tower) (t_attackRate tower)" by simp
        from "1.IH"(1) [OF lt True nf rec] show ?thesis .
      next
        case False
        from "1.IH"(2) [OF lt False rec] show ?thesis .
      qed
      show ?thesis
      proof (cases "fge (t_timer tower) (t_attackRate tower)")
        case f: False
        with ih show ?thesis by simp
      next
        case t: True
        with False have nR: "\<not> ?R i" by simp
        have ex: "(\<exists>j. i \<le> j \<and> j < length monsters \<and> ?R j) =
                  (\<exists>j. i + 1 \<le> j \<and> j < length monsters \<and> ?R j)"
        proof
          assume "\<exists>j. i \<le> j \<and> j < length monsters \<and> ?R j"
          then obtain j where j: "i \<le> j" "j < length monsters" "?R j" by blast
          with nR have "j \<noteq> i" by auto
          with j have "i + 1 \<le> j" by simp
          with j show "\<exists>j. i + 1 \<le> j \<and> j < length monsters \<and> ?R j" by blast
        next
          assume "\<exists>j. i + 1 \<le> j \<and> j < length monsters \<and> ?R j"
          then obtain j where j: "i + 1 \<le> j" "j < length monsters" "?R j" by blast
          then have "i \<le> j" by simp
          with j show "\<exists>j. i \<le> j \<and> j < length monsters \<and> ?R j" by blast
        qed
        show ?thesis
        proof (intro conjI impI)
          assume "fge (t_timer tower) (t_attackRate tower) \<and>
                  (\<exists>j. i \<le> j \<and> j < length monsters \<and> ?R j)"
          with ex ih obtain k where k: "i + 1 \<le> k" "k < length monsters" "?R k"
              "\<forall>j. i + 1 \<le> j \<and> j < k \<longrightarrow> \<not> ?R j"
              "bullets' = bullets @ [\<lparr>b_position = t_position tower, b_velocity = xy 0 0,
                                 b_damage = 50, b_target_index = of_nat k\<rparr>]"
              "tower' = tower\<lparr>t_timer := Fin 0\<rparr>"
            by blast
          have "\<forall>j. i \<le> j \<and> j < k \<longrightarrow> \<not> ?R j"
          proof (intro allI impI)
            fix j assume j: "i \<le> j \<and> j < k"
            show "\<not> ?R j"
            proof (cases "j = i")
              case True
              with nR show ?thesis by simp
            next
              case False
              with j have "i + 1 \<le> j \<and> j < k" by simp
              with k(4) show ?thesis by blast
            qed
          qed
          moreover from k(1) have "i \<le> k" by simp
          ultimately show "\<exists>k. i \<le> k \<and> k < length monsters \<and> ?R k \<and>
              (\<forall>j. i \<le> j \<and> j < k \<longrightarrow> \<not> ?R j) \<and>
              bullets' = bullets @ [\<lparr>b_position = t_position tower, b_velocity = xy 0 0,
                                 b_damage = 50, b_target_index = of_nat k\<rparr>] \<and>
              tower' = tower\<lparr>t_timer := Fin 0\<rparr>"
            using k(2,3,5,6) by blast
        next
          assume "\<not> (fge (t_timer tower) (t_attackRate tower) \<and>
                  (\<exists>j. i \<le> j \<and> j < length monsters \<and> ?R j))"
          with ex ih have "bullets' = bullets \<and> tower' = tower" by blast
          then show "bullets' = bullets" "tower' = tower" by simp_all
        qed
      qed
    qed
  qed
qed

lemma sqrt_81: "sqrt 81 = 9"
  by (rule real_sqrt_unique) simp_all

lemma sqrt_2500: "sqrt 2500 = 50"
  by (rule real_sqrt_unique) simp_all

text \<open>
  C6. One call of \<open>UpdateTower\<close> adds the elapsed time to the timer. If the timer then
  is at least the attack rate and some monster is within range, exactly one bullet is
  appended: it starts at the tower with damage 50, its target is the first monster in
  range in the order of the vector, and the timer is set to 0. In every other case no
  bullet is emitted and the timer keeps the accumulated value. Nothing else of the tower
  changes. The target index is the loop counter stored as a \<^verbatim>\<open>uint32_t\<close>.
\<close>

theorem UpdateTower_fires:
  assumes "UpdateTower tower DeltaTime monsters bullets = (tower', bullets')"
  shows
   "(fge (fadd (t_timer tower) DeltaTime) (t_attackRate tower) \<and>
     (\<exists>j<length monsters.
         fle (Distance (t_position tower) (m_position (monsters ! j))) (t_range tower)) \<longrightarrow>
       (\<exists>k<length monsters.
          fle (Distance (t_position tower) (m_position (monsters ! k))) (t_range tower) \<and>
          (\<forall>j<k. \<not> fle (Distance (t_position tower) (m_position (monsters ! j)))
                      (t_range tower)) \<and>
          bullets' = bullets @ [\<lparr>b_position = t_position tower, b_velocity = xy 0 0,
                                  b_damage = 50, b_target_index = of_nat k\<rparr>] \<and>
          tower' = tower\<lparr>t_timer := Fin 0\<rparr>)) \<and>
    (\<not> (fge (fadd (t_timer tower) DeltaTime) (t_attackRate tower) \<and>
        (\<exists>j<length monsters.
           fle (Distance (t_position tower) (m_position (monsters ! j))) (t_range tower))) \<longrightarrow>
       bullets' = bullets \<and> tower' = tower\<lparr>t_timer := fadd (t_timer tower) DeltaTime\<rparr>)"
  using UpdateTower_scan_result
    [of "tower\<lparr>t_timer := fadd (t_timer tower) DeltaTime\<rparr>" monsters bullets 0 tower' bullets']
    assms
  by (simp add: UpdateTower_def)

text \<open>
  The theorem at Scenario C: a tower at (0,0) whose timer stands at its rate 1.5, a
  monster at (50,0). The first update fires at the monster and resets the timer; a second
  update with no time elapsed emits nothing.
\<close>

theorem UpdateTower_fires_witness:
  "UpdateTower (tower_at 0 0 (3 / 2)) (Fin 0) [monster_at 100 50 0 0] [] =
     (tower_at 0 0 0, [bullet_at 0 0 0]) \<and>
   UpdateTower (tower_at 0 0 0) (Fin 0) [monster_at 100 50 0 0] [bullet_at 0 0 0] =
     (tower_at 0 0 0, [bullet_at 0 0 0])"
proof -
  obtain t1 b1 where e1:
    "UpdateTower (tower_at 0 0 (3 / 2)) (Fin 0) [monster_at 100 50 0 0] [] = (t1, b1)"
    by (cases "UpdateTower (tower_at 0 0 (3 / 2)) (Fin 0) [monster_at 100 50 0 0] []")
  have h1: "fge (fadd (t_timer (tower_at 0 0 (3 / 2))) (Fin 0)) (t_attackRate (tower_at 0 0 (3 / 2))) \<and>
     (\<exists>j<length [monster_at 100 50 0 0].
         fle (Distance (t_position (tower_at 0 0 (3 / 2))) (m_position ([monster_at 100 50 0 0] ! j)))
           (t_range (tower_at 0 0 (3 / 2))))"
    by (simp add: Distance_def sqrt_2500)
  from UpdateTower_fires [OF e1, THEN conjunct1, rule_format, OF h1]
  have r1: "t1 = tower_at 0 0 0" "b1 = [bullet_at 0 0 0]"
    by auto
  obtain t2 b2 where e2:
    "UpdateTower (tower_at 0 0 0) (Fin 0) [monster_at 100 50 0 0] [bullet_at 0 0 0] = (t2, b2)"
    by (cases "UpdateTower (tower_at 0 0 0) (Fin 0) [monster_at 100 50 0 0] [bullet_at 0 0 0]")
  have h2: "\<not> (fge (fadd (t_timer (tower_at 0 0 0)) (Fin 0)) (t_attackRate (tower_at 0 0 0)) \<and>
     (\<exists>j<length [monster_at 100 50 0 0].
         fle (Distance (t_position (tower_at 0 0 0)) (m_position ([monster_at 100 50 0 0] ! j)))
           (t_range (tower_at 0 0 0))))"
    by simp
  from UpdateTower_fires [OF e2, THEN conjunct2, rule_format, OF h2]
  have r2: "t2 = tower_at 0 0 0" "b2 = [bullet_at 0 0 0]"
    by auto
  from e1 r1 e2 r2 show ?thesis by simp
qed


section \<open>Facts about one bullet update\<close>

lemma retarget_unat:
  assumes "monsters \<noteq> []" and "length monsters \<le> unat (idx :: u32)"
  shows "unat (of_nat (length monsters) - 1 :: u32) = length monsters - 1"
proof -
  have "unat idx < 2 ^ 32" using unsigned_less [of idx, where 'a = nat] by simp
  with assms have lt: "length monsters < 2 ^ 32" by simp
  from assms have pos: "1 \<le> length monsters" by (cases monsters) auto
  have "(of_nat (length monsters) - 1 :: u32) = of_nat (length monsters - 1)"
    using pos by (simp add: of_nat_diff)
  moreover have "unat (of_nat (length monsters - 1) :: u32) = length monsters - 1"
    using lt by (simp add: unat_of_nat)
  ultimately show ?thesis by simp
qed

text \<open>
  An impact subtracts the bullet's damage from the health of the targeted monster, in
  32-bit unsigned arithmetic and with no test against zero.
\<close>

lemma UpdateBullet_impact:
  assumes "UpdateBullet bullet DeltaTime monsters = Inr (False, bullet', monsters')"
    and "monsters \<noteq> []"
  shows "unat (b_target_index bullet') < length monsters \<and>
         b_damage bullet' = b_damage bullet \<and>
         monsters' = monsters[unat (b_target_index bullet') :=
           (monsters ! unat (b_target_index bullet'))
             \<lparr>m_health := m_health (monsters ! unat (b_target_index bullet')) - b_damage bullet\<rparr>]"
  using assms
  by (auto simp: UpdateBullet_def vec_at_def Let_def split: if_splits)

text \<open>
  C1 fails on the code. Health is a \<^verbatim>\<open>uint32_t\<close>, so it cannot go negative: a monster
  whose health is already 0 (a bullet of the same pass has killed it) and that is hit by
  a bullet of damage 50 is left with health 4294967246. The health test of
  \<open>UpdateMonster\<close> does not fire for it: the monster is reported alive and moves, here
  from (0,0) to (1,0).
\<close>

theorem UpdateBullet_health_wraps:
  "UpdateBullet (bullet_at 1 0 0) (Fin 0) [monster_at 50 0 0 0] =
     Inr (False, bullet_at 1 0 0, [monster_at 0 0 0 0]) \<and>
   UpdateBullet (bullet_at 1 0 0) (Fin 0) [monster_at 0 0 0 0] =
     Inr (False, bullet_at 1 0 0, [monster_at 4294967246 0 0 0]) \<and>
   UpdateMonster (monster_at 4294967246 0 0 0) (Fin (1 / 100))
       [waypoint_at 0 0, waypoint_at 1 0] 100 =
     Inr (True, monster_at 4294967246 1 0 1, 100)"
  by (simp add: eval_defs)

text \<open>
  C7. When there are monsters and the bullet's target index is not inside their vector,
  the update does not fail: it returns a result, the bullet it returns targets the last
  monster, and the result is the one of the same update on a bullet that targeted the
  last monster from the start.
\<close>

theorem UpdateBullet_retarget:
  assumes "monsters \<noteq> []" and "length monsters \<le> unat (b_target_index bullet)"
  shows "\<exists>alive bullet' monsters'.
           UpdateBullet bullet DeltaTime monsters = Inr (alive, bullet', monsters') \<and>
           unat (b_target_index bullet') = length monsters - 1 \<and>
           UpdateBullet bullet DeltaTime monsters =
             UpdateBullet (bullet\<lparr>b_target_index := of_nat (length monsters - 1)\<rparr>)
               DeltaTime monsters"
proof -
  have u: "unat (of_nat (length monsters) - 1 :: u32) = length monsters - 1"
    using assms by (rule retarget_unat)
  have e: "(of_nat (length monsters) - 1 :: u32) = of_nat (length monsters - 1)"
    using assms(1) by (cases monsters) auto
  have lt: "length monsters - 1 < length monsters"
    using assms(1) by (cases monsters) auto
  show ?thesis
    using assms u lt unfolding e [symmetric]
    by (auto simp: UpdateBullet_def vec_at_def Let_def)
qed

text \<open>
  The theorem at a bullet that targets index 3 when one monster is left: it is
  retargeted to index 0, flies on and, being within its radius of that monster, hits it.
\<close>

theorem UpdateBullet_retarget_witness:
  "[monster_at 100 0 0 0] \<noteq> [] \<and>
   length [monster_at 100 0 0 0] \<le> unat (b_target_index (bullet_at 1 0 3)) \<and>
   UpdateBullet (bullet_at 1 0 3) (Fin 0) [monster_at 100 0 0 0] =
     Inr (False, bullet_at 1 0 0, [monster_at 50 0 0 0]) \<and>
   UpdateBullet (bullet_at 1 0 3) (Fin 0) [monster_at 100 0 0 0] =
     UpdateBullet (bullet_at 1 0 0) (Fin 0) [monster_at 100 0 0 0]"
proof -
  have r: "UpdateBullet (bullet_at 1 0 0) (Fin 0) [monster_at 100 0 0 0] =
     Inr (False, bullet_at 1 0 0, [monster_at 50 0 0 0])"
    by (simp add: eval_defs)
  from UpdateBullet_retarget [of "[monster_at 100 0 0 0]" "bullet_at 1 0 3" "Fin 0"] r
  show ?thesis by auto
qed

text \<open>
  C8. With no monster left the bullet is reported dead at once; the bullet and the
  (empty) monster vector come back as they were.
\<close>

theorem UpdateBullet_no_monsters:
  "UpdateBullet bullet DeltaTime [] = Inr (False, bullet, [])"
  by (simp add: UpdateBullet_def)


section \<open>Facts about the loops of the main loop\<close>

lemma Monster_copy:
  "(a :: Monster)\<lparr>m_health := m_health b,
     m_position := (m_position a)\<lparr>x := x (m_position b), y := y (m_position b)\<rparr>,
     m_velocity := (m_velocity a)\<lparr>x := x (m_velocity b), y := y (m_velocity b)\<rparr>,
     m_waypoint_index := m_waypoint_index b,
     m_damage := m_damage b\<rparr> = b"
  by (cases a; cases b) simp

lemma Bullet_copy:
  "(a :: Bullet)\<lparr>b_position := (b_position a)\<lparr>x := x (b_position b), y := y (b_position b)\<rparr>,
     b_damage := b_damage b,
     b_velocity := (b_velocity a)\<lparr>x := x (b_velocity b), y := y (b_velocity b)\<rparr>,
     b_target_index := b_target_index b\<rparr> = b"
  by (cases a; cases b) simp

lemma remove_monster_eq:
  assumes "i < length monsters"
  shows "remove_monster i (monsters[i := m]) = butlast (monsters[i := last monsters])"
proof (cases "i = length monsters - 1")
  case True
  then show ?thesis
    by (simp add: remove_monster_def Let_def butlast_list_update)
next
  case False
  with assms have ne: "monsters \<noteq> []" and lt: "length monsters - 1 < length monsters" by auto
  from False ne show ?thesis
    by (simp add: remove_monster_def Let_def Monster_copy last_conv_nth)
qed

lemma remove_bullet_eq:
  assumes "i < length bullets"
  shows "remove_bullet i (bullets[i := b]) = butlast (bullets[i := last bullets])"
proof (cases "i = length bullets - 1")
  case True
  then show ?thesis
    by (simp add: remove_bullet_def Let_def butlast_list_update)
next
  case False
  with assms have ne: "bullets \<noteq> []" by auto
  from False ne show ?thesis
    by (simp add: remove_bullet_def Let_def Bullet_copy last_conv_nth)
qed

lemma length_remove_monster:
  "i < length monsters \<Longrightarrow> length (remove_monster i monsters) = length monsters - 1"
  by (simp add: remove_monster_def Let_def)

lemma length_remove_bullet:
  "i < length bullets \<Longrightarrow> length (remove_bullet i bullets) = length bullets - 1"
  by (simp add: remove_bullet_def Let_def)

lemma UpdateMonster_alive:
  "UpdateMonster monster DeltaTime waypoints player_health = Inr (True, monster', player_health')
   \<Longrightarrow> player_health' = player_health"
  by (auto simp: UpdateMonster_def split: if_splits sum.splits dest!: UpdateMonster_move_Inr)

lemma UpdateMonster_dead:
  "UpdateMonster monster DeltaTime waypoints player_health = Inr (False, monster', player_health')
   \<Longrightarrow> monster' = monster \<and>
       (m_health monster = 0 \<or> length waypoints = 1 \<or>
        unat (m_waypoint_index monster) = length waypoints - 1 \<and>
        unat (m_waypoint_index monster) < length waypoints \<and>
        fle (Distance (m_position monster) (w_position (last waypoints))) (Fin 2) \<and>
        player_health' = player_health - m_damage monster)"
proof -
  assume a: "UpdateMonster monster DeltaTime waypoints player_health = Inr (False, monster', player_health')"
  then have c: "monster' = monster \<and>
       (m_health monster = 0 \<or> length waypoints = 1 \<or>
        unat (m_waypoint_index monster) = length waypoints - 1 \<and>
        unat (m_waypoint_index monster) < length waypoints \<and>
        fle (Distance (m_position monster) (w_position (waypoints ! unat (m_waypoint_index monster)))) (Fin 2) \<and>
        player_health' = player_health - m_damage monster)"
    by (auto simp: UpdateMonster_def vec_at_def split: if_splits dest!: UpdateMonster_move_Inr)
  show ?thesis
  proof (cases "unat (m_waypoint_index monster) = length waypoints - 1 \<and>
        unat (m_waypoint_index monster) < length waypoints")
    case True
    then have "waypoints \<noteq> []" by auto
    with True have "waypoints ! unat (m_waypoint_index monster) = last waypoints"
      by (simp add: last_conv_nth)
    with c show ?thesis by simp
  next
    case False
    with c show ?thesis by auto
  qed
qed

lemma UpdateBullet_alive:
  "UpdateBullet bullet DeltaTime monsters = Inr (True, bullet', monsters') \<Longrightarrow> monsters' = monsters"
  by (auto simp: UpdateBullet_def Let_def split: if_splits sum.splits)

lemma update_monsters_all_alive:
  assumes "\<forall>j. i \<le> j \<and> j < length monsters \<longrightarrow>
             (\<exists>m' ph'. UpdateMonster (monsters ! j) DeltaTime waypoints player_health =
                          Inr (True, m', ph'))"
  shows "\<exists>monsters'.
           update_monsters i monsters DeltaTime waypoints player_health killed =
             Inr (monsters', player_health, killed) \<and>
           length monsters' = length monsters \<and>
           (\<forall>j. j < i \<and> j < length monsters \<longrightarrow> monsters' ! j = monsters ! j) \<and>
           (\<forall>j. i \<le> j \<and> j < length monsters \<longrightarrow>
              UpdateMonster (monsters ! j) DeltaTime waypoints player_health =
                Inr (True, monsters' ! j, player_health))"
  using assms
proof (induction n \<equiv> "length monsters - i" arbitrary: i monsters rule: less_induct)
  case less
  show ?case
  proof (cases "i < length monsters")
    case False
    then show ?thesis by (auto simp: update_monsters.simps)
  next
    case True
    with less.prems obtain m1 ph1 where
      u0: "UpdateMonster (monsters ! i) DeltaTime waypoints player_health = Inr (True, m1, ph1)"
      by blast
    then have "ph1 = player_health" by (rule UpdateMonster_alive)
    with u0 have u: "UpdateMonster (monsters ! i) DeltaTime waypoints player_health =
        Inr (True, m1, player_health)" by simp
    let ?ms = "monsters[i := m1]"
    have step: "update_monsters i monsters DeltaTime waypoints player_health killed =
        update_monsters (i + 1) ?ms DeltaTime waypoints player_health killed"
      using True u by (simp add: update_monsters.simps [of i monsters])
    have dec: "length ?ms - (i + 1) < length monsters - i" using True by simp
    have pre: "\<forall>j. i + 1 \<le> j \<and> j < length ?ms \<longrightarrow>
             (\<exists>m' ph'. UpdateMonster (?ms ! j) DeltaTime waypoints player_health =
                          Inr (True, m', ph'))"
      using less.prems by simp
    from less.hyps [OF dec pre] obtain monsters' where
      r: "update_monsters (i + 1) ?ms DeltaTime waypoints player_health killed =
             Inr (monsters', player_health, killed)"
      and len: "length monsters' = length ?ms"
      and low: "\<forall>j. j < i + 1 \<and> j < length ?ms \<longrightarrow> monsters' ! j = ?ms ! j"
      and high: "\<forall>j. i + 1 \<le> j \<and> j < length ?ms \<longrightarrow>
              UpdateMonster (?ms ! j) DeltaTime waypoints player_health =
                Inr (True, monsters' ! j, player_health)"
      by blast
    have a: "\<forall>j. j < i \<and> j < length monsters \<longrightarrow> monsters' ! j = monsters ! j"
      using low by simp
    have b: "\<forall>j. i \<le> j \<and> j < length monsters \<longrightarrow>
              UpdateMonster (monsters ! j) DeltaTime waypoints player_health =
                Inr (True, monsters' ! j, player_health)"
    proof (intro allI impI)
      fix j assume j: "i \<le> j \<and> j < length monsters"
      show "UpdateMonster (monsters ! j) DeltaTime waypoints player_health =
                Inr (True, monsters' ! j, player_health)"
      proof (cases "j = i")
        case True
        with low j have "monsters' ! j = m1" by simp
        with u True show ?thesis by simp
      next
        case False
        with j have "i + 1 \<le> j \<and> j < length ?ms" by simp
        with high have "UpdateMonster (?ms ! j) DeltaTime waypoints player_health =
                Inr (True, monsters' ! j, player_health)" by blast
        with False show ?thesis by simp
      qed
    qed
    from step r len a b show ?thesis by simp
  qed
qed

lemma update_bullets_all_alive:
  assumes "\<forall>j. i \<le> j \<and> j < length bullets \<longrightarrow>
             (\<exists>b' ms'. UpdateBullet (bullets ! j) DeltaTime monsters = Inr (True, b', ms'))"
  shows "\<exists>bullets'.
           update_bullets i bullets DeltaTime monsters = Inr (bullets', monsters) \<and>
           length bullets' = length bullets \<and>
           (\<forall>j. j < i \<and> j < length bullets \<longrightarrow> bullets' ! j = bullets ! j) \<and>
           (\<forall>j. i \<le> j \<and> j < length bullets \<longrightarrow>
              UpdateBullet (bullets ! j) DeltaTime monsters = Inr (True, bullets' ! j, monsters))"
  using assms
proof (induction n \<equiv> "length bullets - i" arbitrary: i bullets rule: less_induct)
  case less
  show ?case
  proof (cases "i < length bullets")
    case False
    then show ?thesis by (auto simp: update_bullets.simps)
  next
    case True
    with less.prems obtain b1 ms1 where
      u0: "UpdateBullet (bullets ! i) DeltaTime monsters = Inr (True, b1, ms1)"
      by blast
    then have "ms1 = monsters" by (rule UpdateBullet_alive)
    with u0 have u: "UpdateBullet (bullets ! i) DeltaTime monsters = Inr (True, b1, monsters)"
      by simp
    let ?bs = "bullets[i := b1]"
    have step: "update_bullets i bullets DeltaTime monsters =
        update_bullets (i + 1) ?bs DeltaTime monsters"
      using True u by (simp add: update_bullets.simps [of i bullets])
    have dec: "length ?bs - (i + 1) < length bullets - i" using True by simp
    have pre: "\<forall>j. i + 1 \<le> j \<and> j < length ?bs \<longrightarrow>
             (\<exists>b' ms'. UpdateBullet (?bs ! j) DeltaTime monsters = Inr (True, b', ms'))"
      using less.prems by simp
    from less.hyps [OF dec pre] obtain bullets' where
      r: "update_bullets (i + 1) ?bs DeltaTime monsters = Inr (bullets', monsters)"
      and len: "length bullets' = length ?bs"
      and low: "\<forall>j. j < i + 1 \<and> j < length ?bs \<longrightarrow> bullets' ! j = ?bs ! j"
      and high: "\<forall>j. i + 1 \<le> j \<and> j < length ?bs \<longrightarrow>
              UpdateBullet (?bs ! j) DeltaTime monsters = Inr (True, bullets' ! j, monsters)"
      by blast
    have a: "\<forall>j. j < i \<and> j < length bullets \<longrightarrow> bullets' ! j = bullets ! j"
      using low by simp
    have b: "\<forall>j. i \<le> j \<and> j < length bullets \<longrightarrow>
              UpdateBullet (bullets ! j) DeltaTime monsters = Inr (True, bullets' ! j, monsters)"
    proof (intro allI impI)
      fix j assume j: "i \<le> j \<and> j < length bullets"
      show "UpdateBullet (bullets ! j) DeltaTime monsters = Inr (True, bullets' ! j, monsters)"
      proof (cases "j = i")
        case True
        with low j have "bullets' ! j = b1" by simp
        with u True show ?thesis by simp
      next
        case False
        with j have "i + 1 \<le> j \<and> j < length ?bs" by simp
        with high have "UpdateBullet (?bs ! j) DeltaTime monsters =
                Inr (True, bullets' ! j, monsters)" by blast
        with False show ?thesis by simp
      qed
    qed
    from step r len a b show ?thesis by simp
  qed
qed

lemma update_monsters_dead_step:
  assumes "i < length monsters"
    and "UpdateMonster (monsters ! i) DeltaTime waypoints player_health = Inr (False, m', ph')"
  shows "update_monsters i monsters DeltaTime waypoints player_health killed =
         update_monsters i (butlast (monsters[i := last monsters])) DeltaTime waypoints ph' (killed + 1)"
  using assms
  by (simp add: update_monsters.simps [of i monsters] remove_monster_eq)

lemma update_bullets_dead_step:
  assumes "i < length bullets"
    and "UpdateBullet (bullets ! i) DeltaTime monsters = Inr (False, b', ms')"
  shows "update_bullets i bullets DeltaTime monsters =
         update_bullets i (butlast (bullets[i := last bullets])) DeltaTime ms'"
  using assms
  by (simp add: update_bullets.simps [of i bullets] remove_bullet_eq)

text \<open>
  Out-of-bounds reads do not happen in a game whose monsters all target a waypoint that
  exists: every update returns a result, and the monsters keep targeting existing
  waypoints.
\<close>

lemma unat_incr_less:
  assumes "unat (w :: u32) < n" and "unat w \<noteq> n - 1"
  shows "unat (w + 1) < n"
proof -
  have "unat (w + 1) \<le> unat w + 1" by (rule unat_incr_le)
  with assms show ?thesis by simp
qed

lemma UpdateMonster_total:
  assumes "unat (m_waypoint_index monster) < length waypoints"
  shows "\<exists>alive monster' player_health'.
           UpdateMonster monster DeltaTime waypoints player_health =
             Inr (alive, monster', player_health') \<and>
           unat (m_waypoint_index monster') < length waypoints"
  using assms unat_incr_less [of "m_waypoint_index monster" "length waypoints"]
  by (auto simp: UpdateMonster_def UpdateMonster_move_def vec_at_def Let_def)

lemma map_waypoint_index_update:
  "map m_waypoint_index (monsters[i := (monsters ! i)\<lparr>m_health := h\<rparr>]) =
   map m_waypoint_index monsters"
proof (cases "i < length monsters")
  case True
  then show ?thesis by (auto simp: list_eq_iff_nth_eq nth_list_update)
next
  case False
  then have "length monsters \<le> i" by simp
  then show ?thesis by (simp add: list_update_beyond)
qed

lemma UpdateBullet_total:
  "\<exists>alive bullet' monsters'.
     UpdateBullet bullet DeltaTime monsters = Inr (alive, bullet', monsters') \<and>
     map m_waypoint_index monsters' = map m_waypoint_index monsters"
proof (cases "monsters = []")
  case True
  then show ?thesis by (auto simp: UpdateBullet_def)
next
  case False
  show ?thesis
  proof (cases "length monsters \<le> unat (b_target_index bullet)")
    case True
    from retarget_unat [OF False True] False
    have "unat (of_nat (length monsters) - 1 :: u32) < length monsters"
      by (cases monsters) auto
    with False True show ?thesis
      by (auto simp: UpdateBullet_def vec_at_def Let_def map_waypoint_index_update)
  next
    case False
    then show ?thesis
      by (auto simp: UpdateBullet_def vec_at_def Let_def map_waypoint_index_update)
  qed
qed

lemma set_remove_monster:
  "i < length monsters \<Longrightarrow> set (remove_monster i (monsters[i := m])) \<subseteq> set monsters"
proof -
  assume i: "i < length monsters"
  then have ne: "monsters \<noteq> []" by auto
  have "set (butlast (monsters[i := last monsters])) \<subseteq> set (monsters[i := last monsters])"
    by (auto dest: in_set_butlastD)
  also have "\<dots> \<subseteq> insert (last monsters) (set monsters)"
    by (rule set_update_subset_insert)
  also have "\<dots> = set monsters" using ne by auto
  finally show ?thesis using i by (simp add: remove_monster_eq)
qed

lemma update_monsters_total:
  assumes "\<forall>m \<in> set monsters. unat (m_waypoint_index m) < length waypoints"
  shows "\<exists>monsters' player_health' killed'.
           update_monsters i monsters DeltaTime waypoints player_health killed =
             Inr (monsters', player_health', killed') \<and>
           (\<forall>m \<in> set monsters'. unat (m_waypoint_index m) < length waypoints)"
  using assms
proof (induction n \<equiv> "length monsters - i" arbitrary: i monsters player_health killed
         rule: less_induct)
  case less
  show ?case
  proof (cases "i < length monsters")
    case False
    with less.prems show ?thesis by (simp add: update_monsters.simps)
  next
    case True
    with less.prems have "unat (m_waypoint_index (monsters ! i)) < length waypoints" by simp
    from UpdateMonster_total [OF this] obtain alive m1 ph1 where
      u: "UpdateMonster (monsters ! i) DeltaTime waypoints player_health = Inr (alive, m1, ph1)"
      and m1: "unat (m_waypoint_index m1) < length waypoints"
      by blast
    have inv1: "\<forall>m \<in> set (monsters[i := m1]). unat (m_waypoint_index m) < length waypoints"
      using less.prems m1 set_update_subset_insert [of monsters i m1] by auto
    show ?thesis
    proof (cases alive)
      case True
      have dec: "length (monsters[i := m1]) - (i + 1) < length monsters - i"
        using \<open>i < length monsters\<close> by simp
      from less.hyps [OF dec inv1, of ph1 killed] u True \<open>i < length monsters\<close>
      show ?thesis by (simp add: update_monsters.simps [of i monsters])
    next
      case False
      have dec: "length (remove_monster i (monsters[i := m1])) - i < length monsters - i"
        using \<open>i < length monsters\<close> by (simp add: length_remove_monster)
      have inv2: "\<forall>m \<in> set (remove_monster i (monsters[i := m1])).
                    unat (m_waypoint_index m) < length waypoints"
        using less.prems set_remove_monster [OF \<open>i < length monsters\<close>, of m1] by blast
      from less.hyps [OF dec inv2, of ph1 "killed + 1"] u False \<open>i < length monsters\<close>
      show ?thesis by (simp add: update_monsters.simps [of i monsters])
    qed
  qed
qed

lemma update_bullets_total:
  "\<exists>bullets' monsters'.
     update_bullets i bullets DeltaTime monsters = Inr (bullets', monsters') \<and>
     map m_waypoint_index monsters' = map m_waypoint_index monsters"
proof (induction n \<equiv> "length bullets - i" arbitrary: i bullets monsters rule: less_induct)
  case less
  show ?case
  proof (cases "i < length bullets")
    case False
    then show ?thesis by (simp add: update_bullets.simps)
  next
    case True
    from UpdateBullet_total [of "bullets ! i" DeltaTime monsters] obtain alive b1 ms1 where
      u: "UpdateBullet (bullets ! i) DeltaTime monsters = Inr (alive, b1, ms1)"
      and w: "map m_waypoint_index ms1 = map m_waypoint_index monsters"
      by blast
    show ?thesis
    proof (cases alive)
      case True
      have dec: "length (bullets[i := b1]) - (i + 1) < length bullets - i"
        using \<open>i < length bullets\<close> by simp
      from less.hyps [OF dec, of ms1] u w True \<open>i < length bullets\<close>
      show ?thesis by (simp add: update_bullets.simps [of i bullets])
    next
      case False
      have dec: "length (remove_bullet i (bullets[i := b1])) - i < length bullets - i"
        using \<open>i < length bullets\<close> by (simp add: length_remove_bullet)
      from less.hyps [OF dec, of ms1] u w False \<open>i < length bullets\<close>
      show ?thesis by (simp add: update_bullets.simps [of i bullets])
    qed
  qed
qed

lemma main_update_total:
  assumes "\<forall>m \<in> set (g_monsters g). unat (m_waypoint_index m) < length (g_waypoints g)"
  shows "\<exists>g' over. main_update g DeltaTime = Inr (g', over) \<and>
           (\<forall>m \<in> set (g_monsters g'). unat (m_waypoint_index m) < length (g_waypoints g'))"
proof -
  from update_monsters_total [OF assms] obtain ms ph killed where
    m: "update_monsters 0 (g_monsters g) DeltaTime (g_waypoints g)
          (g_player_health g) (g_monsters_killed g) = Inr (ms, ph, killed)"
    and inv: "\<forall>m \<in> set ms. unat (m_waypoint_index m) < length (g_waypoints g)"
    by blast
  obtain ts bs where t: "update_towers 0 (g_towers g) DeltaTime ms (g_bullets g) = (ts, bs)"
    by (cases "update_towers 0 (g_towers g) DeltaTime ms (g_bullets g)")
  from update_bullets_total [of 0 bs DeltaTime ms] obtain bs' ms' where
    b: "update_bullets 0 bs DeltaTime ms = Inr (bs', ms')"
    and w: "map m_waypoint_index ms' = map m_waypoint_index ms"
    by blast
  from inv have "\<forall>k \<in> set (map m_waypoint_index ms). unat k < length (g_waypoints g)"
    by simp
  with w have "\<forall>k \<in> set (map m_waypoint_index ms'). unat k < length (g_waypoints g)"
    by simp
  then have inv': "\<forall>m \<in> set ms'. unat (m_waypoint_index m) < length (g_waypoints g)"
    by simp
  from m t b inv' show ?thesis
    by (simp add: main_update_def)
qed

text \<open>
  The monsters that the first loop removes, and the ones it keeps.
\<close>

lemma mset_butlast_last: "ys \<noteq> [] \<Longrightarrow> add_mset (last ys) (mset (butlast ys)) = mset ys"
  by (induction ys) auto

lemma mset_drop_remove:
  assumes "i < length ms"
  shows "mset (drop i ms) = {#ms ! i#} + mset (drop i (butlast (ms[i := last ms])))"
proof -
  let ?ys = "drop (Suc i) ms"
  have d: "drop i ms = ms ! i # ?ys" using assms by (simp add: Cons_nth_drop_Suc)
  have u: "drop i (ms[i := last ms]) = last ms # ?ys"
    using assms d by (simp add: drop_update_swap)
  have "drop i (butlast (ms[i := last ms])) = butlast (drop i (ms[i := last ms]))"
    by (rule butlast_drop [symmetric])
  also have "\<dots> = butlast (last ms # ?ys)" by (simp only: u)
  finally have b: "drop i (butlast (ms[i := last ms])) = butlast (last ms # ?ys)" .
  show ?thesis
  proof (cases "?ys = []")
    case True
    with d b show ?thesis by simp
  next
    case False
    then have l: "last ?ys = last ms" by (simp add: last_drop)
    from False have "add_mset (last ?ys) (mset (butlast ?ys)) = mset ?ys"
      by (rule mset_butlast_last)
    with l have "add_mset (last ms) (mset (butlast ?ys)) = mset ?ys" by simp
    with False d b show ?thesis by simp
  qed
qed

lemma take_remove:
  assumes "i < length ms"
  shows "take i (butlast (ms[i := v])) = take i ms"
  using assms by (simp add: take_butlast)

lemma update_monsters_removed:
  assumes "update_monsters i monsters DeltaTime waypoints player_health killed =
             Inr (monsters', player_health', killed')"
    and "i \<le> length monsters"
  shows "\<exists>dead pre.
           mset (drop i monsters) = mset dead + mset pre \<and>
           take i monsters' = take i monsters \<and>
           length monsters' = i + length pre \<and>
           (\<forall>d \<in> set dead. \<exists>p p'. UpdateMonster d DeltaTime waypoints p = Inr (False, d, p')) \<and>
           (\<forall>j<length pre. \<exists>p.
              UpdateMonster (pre ! j) DeltaTime waypoints p = Inr (True, monsters' ! (i + j), p)) \<and>
           killed' = killed + of_nat (length dead)"
  using assms
proof (induction n \<equiv> "length monsters - i" arbitrary: i monsters player_health killed
         rule: less_induct)
  case less
  note eq = less.prems(1)
  show ?case
  proof (cases "i < length monsters")
    case False
    with less.prems(2) have "i = length monsters" by simp
    with eq have "monsters' = monsters" "killed' = killed"
      by (simp_all add: update_monsters.simps)
    with \<open>i = length monsters\<close> show ?thesis
      by (intro exI [of _ "[]"]) simp
  next
    case True
    from eq True obtain alive m1 ph1 where
      u: "UpdateMonster (monsters ! i) DeltaTime waypoints player_health = Inr (alive, m1, ph1)"
      by (auto simp: update_monsters.simps [of i monsters] split: sum.splits)
    show ?thesis
    proof (cases alive)
      case alive: True
      let ?ms = "monsters[i := m1]"
      from u alive have ph1: "ph1 = player_health" by (auto dest: UpdateMonster_alive)
      from eq u True alive have
        r: "update_monsters (i + 1) ?ms DeltaTime waypoints ph1 killed =
              Inr (monsters', player_health', killed')"
        by (simp add: update_monsters.simps [of i monsters])
      have dec: "length ?ms - (i + 1) < length monsters - i" using True by simp
      have le: "i + 1 \<le> length ?ms" using True by simp
      from less.hyps [OF dec r le] obtain dead pre1 where
        a: "mset (drop (i + 1) ?ms) = mset dead + mset pre1"
        and b: "take (i + 1) monsters' = take (i + 1) ?ms"
        and c: "length monsters' = i + 1 + length pre1"
        and d: "\<forall>d \<in> set dead. \<exists>p p'. UpdateMonster d DeltaTime waypoints p = Inr (False, d, p')"
        and e: "\<forall>j<length pre1. \<exists>p.
              UpdateMonster (pre1 ! j) DeltaTime waypoints p =
                Inr (True, monsters' ! (i + 1 + j), p)"
        and f: "killed' = killed + of_nat (length dead)"
        by blast
      let ?pre = "monsters ! i # pre1"
      have a': "mset (drop i monsters) = mset dead + mset ?pre"
      proof -
        have "drop i monsters = monsters ! i # drop (Suc i) monsters"
          using True by (simp add: Cons_nth_drop_Suc)
        moreover have "drop (Suc i) ?ms = drop (Suc i) monsters" by simp
        ultimately show ?thesis using a by simp
      qed
      have il: "i < length monsters'" using c by simp
      have nth: "monsters' ! i = m1"
      proof -
        have "monsters' ! i = take (i + 1) monsters' ! i" by simp
        also have "\<dots> = take (i + 1) ?ms ! i" by (simp only: b)
        also have "\<dots> = m1" using True by simp
        finally show ?thesis .
      qed
      have b': "take i monsters' = take i monsters"
      proof -
        have "take i monsters' = take i (take (i + 1) monsters')" by (simp add: min_def)
        also have "\<dots> = take i (take (i + 1) ?ms)" by (simp only: b)
        also have "\<dots> = take i monsters" by (simp add: min_def)
        finally show ?thesis .
      qed
      have c': "length monsters' = i + length ?pre" using c by simp
      have e': "\<forall>j<length ?pre. \<exists>p.
              UpdateMonster (?pre ! j) DeltaTime waypoints p =
                Inr (True, monsters' ! (i + j), p)"
      proof (intro allI impI)
        fix j assume j: "j < length ?pre"
        show "\<exists>p. UpdateMonster (?pre ! j) DeltaTime waypoints p =
                Inr (True, monsters' ! (i + j), p)"
        proof (cases j)
          case 0
          with u alive ph1 nth show ?thesis by auto
        next
          case (Suc j')
          with j have "j' < length pre1" by simp
          with e obtain p where "UpdateMonster (pre1 ! j') DeltaTime waypoints p =
                Inr (True, monsters' ! (i + 1 + j'), p)" by blast
          with Suc show ?thesis by auto
        qed
      qed
      from a' b' c' d e' f show ?thesis by blast
    next
      case dead: False
      from u dead have m1: "m1 = monsters ! i" by (auto dest: UpdateMonster_dead)
      let ?ms = "butlast (monsters[i := last monsters])"
      from eq u True dead have
        r: "update_monsters i ?ms DeltaTime waypoints ph1 (killed + 1) =
              Inr (monsters', player_health', killed')"
        by (simp add: update_monsters.simps [of i monsters] remove_monster_eq)
      have dec: "length ?ms - i < length monsters - i" using True by simp
      have le: "i \<le> length ?ms" using True by simp
      from less.hyps [OF dec r le] obtain dead1 pre where
        a: "mset (drop i ?ms) = mset dead1 + mset pre"
        and b: "take i monsters' = take i ?ms"
        and c: "length monsters' = i + length pre"
        and d: "\<forall>d \<in> set dead1. \<exists>p p'. UpdateMonster d DeltaTime waypoints p = Inr (False, d, p')"
        and e: "\<forall>j<length pre. \<exists>p.
              UpdateMonster (pre ! j) DeltaTime waypoints p =
                Inr (True, monsters' ! (i + j), p)"
        and f: "killed' = killed + 1 + of_nat (length dead1)"
        by blast
      let ?dead = "monsters ! i # dead1"
      have a': "mset (drop i monsters) = mset ?dead + mset pre"
        using mset_drop_remove [OF True] a by simp
      have b': "take i monsters' = take i monsters"
        using b take_remove [OF True] by simp
      have d': "\<forall>d \<in> set ?dead. \<exists>p p'. UpdateMonster d DeltaTime waypoints p = Inr (False, d, p')"
        using d u dead m1 by auto
      have f': "killed' = killed + of_nat (length ?dead)" using f by simp
      from a' b' c d' e f' show ?thesis by blast
    qed
  qed
qed

lemma UpdateBullet_fields:
  assumes "UpdateBullet bullet DeltaTime monsters = Inr (alive, bullet', monsters')"
  shows "length monsters' = length monsters \<and>
         (\<forall>j<length monsters.
            monsters' ! j = (monsters ! j)\<lparr>m_health := m_health (monsters' ! j)\<rparr>)"
  using assms
  by (auto simp: UpdateBullet_def vec_at_def Let_def nth_list_update split: if_splits)

lemma update_bullets_fields:
  assumes "update_bullets i bullets DeltaTime monsters = Inr (bullets', monsters')"
  shows "length monsters' = length monsters \<and>
         (\<forall>j<length monsters.
            monsters' ! j = (monsters ! j)\<lparr>m_health := m_health (monsters' ! j)\<rparr>)"
  using assms
proof (induction n \<equiv> "length bullets - i" arbitrary: i bullets monsters rule: less_induct)
  case less
  note eq = less.prems
  show ?case
  proof (cases "i < length bullets")
    case False
    with eq show ?thesis by (simp add: update_bullets.simps)
  next
    case True
    from eq True obtain alive b1 ms1 where
      u: "UpdateBullet (bullets ! i) DeltaTime monsters = Inr (alive, b1, ms1)"
      by (auto simp: update_bullets.simps [of i bullets] split: sum.splits)
    from UpdateBullet_fields [OF u] have l1: "length ms1 = length monsters"
      and f1: "\<forall>j<length monsters. ms1 ! j = (monsters ! j)\<lparr>m_health := m_health (ms1 ! j)\<rparr>"
      by simp_all
    have "\<exists>bs. update_bullets (if alive then i + 1 else i) bs DeltaTime ms1 =
              Inr (bullets', monsters') \<and>
            length bs - (if alive then i + 1 else i) < length bullets - i"
    proof (cases alive)
      case True
      with eq u \<open>i < length bullets\<close> show ?thesis
        by (intro exI [of _ "bullets[i := b1]"])
           (simp add: update_bullets.simps [of i bullets])
    next
      case False
      with eq u \<open>i < length bullets\<close> show ?thesis
        by (intro exI [of _ "remove_bullet i (bullets[i := b1])"])
           (simp add: update_bullets.simps [of i bullets] length_remove_bullet)
    qed
    then obtain bs where
      r: "update_bullets (if alive then i + 1 else i) bs DeltaTime ms1 = Inr (bullets', monsters')"
      and dec: "length bs - (if alive then i + 1 else i) < length bullets - i"
      by blast
    from less.hyps [OF dec r] have l2: "length monsters' = length ms1"
      and f2: "\<forall>j<length ms1. monsters' ! j = (ms1 ! j)\<lparr>m_health := m_health (monsters' ! j)\<rparr>"
      by simp_all
    have "\<forall>j<length monsters.
            monsters' ! j = (monsters ! j)\<lparr>m_health := m_health (monsters' ! j)\<rparr>"
    proof (intro allI impI)
      fix j assume j: "j < length monsters"
      with f1 have a: "ms1 ! j = (monsters ! j)\<lparr>m_health := m_health (ms1 ! j)\<rparr>" by blast
      from j l1 f2 have b: "monsters' ! j = (ms1 ! j)\<lparr>m_health := m_health (monsters' ! j)\<rparr>"
        by simp
      have "(ms1 ! j)\<lparr>m_health := m_health (monsters' ! j)\<rparr> =
            (monsters ! j)\<lparr>m_health := m_health (monsters' ! j)\<rparr>"
        by (subst a) simp
      with b show "monsters' ! j = (monsters ! j)\<lparr>m_health := m_health (monsters' ! j)\<rparr>"
        by simp
    qed
    with l1 l2 show ?thesis by simp
  qed
qed

lemmas loop_simps = main_update_def update_monsters.simps update_towers.simps
  update_bullets.simps UpdateTower_def UpdateTower_scan.simps remove_monster_def
  remove_bullet_def

text \<open>
  C5, as the code has it. In one pass of the main loop the monsters of the start split
  into the removed ones (\<open>dead\<close>) and the kept ones (\<open>pre\<close>). The kill counter grows by
  the number of removed monsters (as a \<^verbatim>\<open>uint32_t\<close>), which is the number by which the
  vector has shrunk. Every removed monster is one whose \<open>UpdateMonster\<close> reports it dead,
  and that report has three causes, each counted as a kill: health 0, a path of a single
  waypoint, or arrival within 2.0 of the targeted waypoint when that is the last one.
  Every kept monster is one whose \<open>UpdateMonster\<close> reports it alive, and the vector at
  the end of the pass holds the records these updates returned, with the health that the
  bullets of the pass have left.
\<close>

theorem main_update_kills:
  assumes "main_update g DeltaTime = Inr (g', over)"
  shows "\<exists>dead pre survivors.
           mset (g_monsters g) = mset dead + mset pre \<and>
           length dead = length (g_monsters g) - length (g_monsters g') \<and>
           g_monsters_killed g' = g_monsters_killed g + of_nat (length dead) \<and>
           (\<forall>d \<in> set dead.
              (\<exists>p p'. UpdateMonster d DeltaTime (g_waypoints g) p = Inr (False, d, p')) \<and>
              (m_health d = 0 \<or> length (g_waypoints g) = 1 \<or>
               unat (m_waypoint_index d) = length (g_waypoints g) - 1 \<and>
               unat (m_waypoint_index d) < length (g_waypoints g) \<and>
               fle (Distance (m_position d) (w_position (last (g_waypoints g)))) (Fin 2))) \<and>
           length survivors = length pre \<and>
           (\<forall>j<length pre. \<exists>p.
              UpdateMonster (pre ! j) DeltaTime (g_waypoints g) p = Inr (True, survivors ! j, p)) \<and>
           length (g_monsters g') = length survivors \<and>
           (\<forall>j<length survivors.
              g_monsters g' ! j = (survivors ! j)\<lparr>m_health := m_health (g_monsters g' ! j)\<rparr>)"
proof -
  from assms obtain ms ph killed ts bs bs' ms' where
    m: "update_monsters 0 (g_monsters g) DeltaTime (g_waypoints g)
          (g_player_health g) (g_monsters_killed g) = Inr (ms, ph, killed)"
    and b: "update_bullets 0 bs DeltaTime ms = Inr (bs', ms')"
    and g': "g' = g\<lparr>g_monsters := ms', g_towers := ts, g_bullets := bs',
                     g_monsters_killed := killed, g_player_health := ph\<rparr>"
    by (auto simp: main_update_def split: sum.splits prod.splits)
  from update_monsters_removed [OF m] obtain dead pre where
    a: "mset (g_monsters g) = mset dead + mset pre"
    and c: "length ms = length pre"
    and d: "\<forall>d \<in> set dead. \<exists>p p'.
              UpdateMonster d DeltaTime (g_waypoints g) p = Inr (False, d, p')"
    and e: "\<forall>j<length pre. \<exists>p.
              UpdateMonster (pre ! j) DeltaTime (g_waypoints g) p = Inr (True, ms ! j, p)"
    and f: "killed = g_monsters_killed g + of_nat (length dead)"
    by auto
  from update_bullets_fields [OF b] have l: "length ms' = length ms"
    and h: "\<forall>j<length ms. ms' ! j = (ms ! j)\<lparr>m_health := m_health (ms' ! j)\<rparr>"
    by simp_all
  from a have "size (mset (g_monsters g)) = size (mset dead + mset pre)" by simp
  then have len: "length (g_monsters g) = length dead + length pre" by simp
  have d': "\<forall>d \<in> set dead.
              (\<exists>p p'. UpdateMonster d DeltaTime (g_waypoints g) p = Inr (False, d, p')) \<and>
              (m_health d = 0 \<or> length (g_waypoints g) = 1 \<or>
               unat (m_waypoint_index d) = length (g_waypoints g) - 1 \<and>
               unat (m_waypoint_index d) < length (g_waypoints g) \<and>
               fle (Distance (m_position d) (w_position (last (g_waypoints g)))) (Fin 2))"
  proof
    fix x assume "x \<in> set dead"
    with d obtain p p' where
      v: "UpdateMonster x DeltaTime (g_waypoints g) p = Inr (False, x, p')" by blast
    from UpdateMonster_dead [OF v] v
    show "(\<exists>p p'. UpdateMonster x DeltaTime (g_waypoints g) p = Inr (False, x, p')) \<and>
              (m_health x = 0 \<or> length (g_waypoints g) = 1 \<or>
               unat (m_waypoint_index x) = length (g_waypoints g) - 1 \<and>
               unat (m_waypoint_index x) < length (g_waypoints g) \<and>
               fle (Distance (m_position x) (w_position (last (g_waypoints g)))) (Fin 2))"
      by blast
  qed
  have "mset (g_monsters g) = mset dead + mset pre \<and>
           length dead = length (g_monsters g) - length (g_monsters g') \<and>
           g_monsters_killed g' = g_monsters_killed g + of_nat (length dead) \<and>
           (\<forall>d \<in> set dead.
              (\<exists>p p'. UpdateMonster d DeltaTime (g_waypoints g) p = Inr (False, d, p')) \<and>
              (m_health d = 0 \<or> length (g_waypoints g) = 1 \<or>
               unat (m_waypoint_index d) = length (g_waypoints g) - 1 \<and>
               unat (m_waypoint_index d) < length (g_waypoints g) \<and>
               fle (Distance (m_position d) (w_position (last (g_waypoints g)))) (Fin 2))) \<and>
           length ms = length pre \<and>
           (\<forall>j<length pre. \<exists>p.
              UpdateMonster (pre ! j) DeltaTime (g_waypoints g) p = Inr (True, ms ! j, p)) \<and>
           length (g_monsters g') = length ms \<and>
           (\<forall>j<length ms.
              g_monsters g' ! j = (ms ! j)\<lparr>m_health := m_health (g_monsters g' ! j)\<rparr>)"
    using a len c d' e f l h g' by simp
  then show ?thesis by blast
qed

text \<open>
  The theorem at Scenario B as a whole pass: the monster arrives, is removed and counted,
  and the player's health goes from 100 to 95; the removed monster is the one whose update
  reports dead.
\<close>

theorem main_update_kills_witness:
  "main_update \<lparr>g_monsters = [monster_at 100 9 0 1],
                 g_waypoints = [waypoint_at 0 0, waypoint_at 10 0],
                 g_towers = [], g_bullets = [],
                 g_monsters_killed = 0, g_player_health = 100\<rparr> (Fin 0) =
     Inr (\<lparr>g_monsters = [], g_waypoints = [waypoint_at 0 0, waypoint_at 10 0],
           g_towers = [], g_bullets = [],
           g_monsters_killed = 1, g_player_health = 95\<rparr>, False) \<and>
   (\<exists>p p'. UpdateMonster (monster_at 100 9 0 1) (Fin 0)
              [waypoint_at 0 0, waypoint_at 10 0] p = Inr (False, monster_at 100 9 0 1, p'))"
proof -
  let ?g = "\<lparr>g_monsters = [monster_at 100 9 0 1],
                 g_waypoints = [waypoint_at 0 0, waypoint_at 10 0],
                 g_towers = [], g_bullets = [],
                 g_monsters_killed = 0, g_player_health = 100\<rparr>"
  let ?g' = "\<lparr>g_monsters = [], g_waypoints = [waypoint_at 0 0, waypoint_at 10 0],
           g_towers = [], g_bullets = [],
           g_monsters_killed = 1, g_player_health = 95\<rparr>"
  have e: "main_update ?g (Fin 0) = Inr (?g', False)"
    by (simp add: loop_simps eval_defs)
  from main_update_kills [OF e] obtain dead pre where
    a: "mset (g_monsters ?g) = mset dead + mset pre"
    and n: "length dead = length (g_monsters ?g) - length (g_monsters ?g')"
    and d: "\<forall>d \<in> set dead.
              (\<exists>p p'. UpdateMonster d (Fin 0) (g_waypoints ?g) p = Inr (False, d, p'))"
    by blast
  from n have "length dead = 1" by simp
  then obtain d0 where d0: "dead = [d0]" by (cases dead) auto
  with a have "d0 = monster_at 100 9 0 1"
    by (cases pre) (simp_all add: union_single_eq_member)
  with d d0 have "\<exists>p p'. UpdateMonster (monster_at 100 9 0 1) (Fin 0)
              [waypoint_at 0 0, waypoint_at 10 0] p = Inr (False, monster_at 100 9 0 1, p')"
    by simp
  with e show ?thesis by blast
qed

text \<open>
  C5 as the specification words it names two causes only. At the start of the game, with
  the single waypoint (150,150), a spawned monster of health 100 is removed and counted
  as a kill although it has taken no damage and the player's health stays 100, so the
  arrival branch has not run.
\<close>

theorem main_update_kills_counterexample:
  "m_health (monster_at 100 150 150 0) \<noteq> 0 \<and>
   main_update \<lparr>g_monsters = [monster_at 100 150 150 0],
                 g_waypoints = [waypoint_at 150 150],
                 g_towers = [], g_bullets = [],
                 g_monsters_killed = 0, g_player_health = 100\<rparr> (Fin 0) =
     Inr (\<lparr>g_monsters = [], g_waypoints = [waypoint_at 150 150],
           g_towers = [], g_bullets = [],
           g_monsters_killed = 1, g_player_health = 100\<rparr>, False)"
  by (simp add: loop_simps eval_defs)

text \<open>
  C10. First two parts: when every update of a pass reports its entity alive, the pass
  removes nothing. The vector keeps its length, and position \<open>j\<close> holds the record that
  the update of the entity at \<open>j\<close> returned, so the order is the one before the pass;
  the player's health and the kill counter (for monsters) and the monsters (for bullets)
  are as before. Last two parts: when the update at position \<open>i\<close> reports dead, the
  loop goes on at the same index \<open>i\<close> on the vector in which position \<open>i\<close> holds the
  record that was last and which is one shorter.
\<close>

theorem compaction:
  "((\<forall>j<length monsters. \<exists>m' ph'.
        UpdateMonster (monsters ! j) DeltaTime waypoints player_health = Inr (True, m', ph')) \<longrightarrow>
      (\<exists>monsters'.
         update_monsters 0 monsters DeltaTime waypoints player_health killed =
           Inr (monsters', player_health, killed) \<and>
         length monsters' = length monsters \<and>
         (\<forall>j<length monsters.
            UpdateMonster (monsters ! j) DeltaTime waypoints player_health =
              Inr (True, monsters' ! j, player_health)))) \<and>
   ((\<forall>j<length bullets. \<exists>b' ms'.
        UpdateBullet (bullets ! j) DeltaTime monsters = Inr (True, b', ms')) \<longrightarrow>
      (\<exists>bullets'.
         update_bullets 0 bullets DeltaTime monsters = Inr (bullets', monsters) \<and>
         length bullets' = length bullets \<and>
         (\<forall>j<length bullets.
            UpdateBullet (bullets ! j) DeltaTime monsters =
              Inr (True, bullets' ! j, monsters)))) \<and>
   (i < length monsters \<and>
    UpdateMonster (monsters ! i) DeltaTime waypoints player_health = Inr (False, m1, ph1) \<longrightarrow>
      update_monsters i monsters DeltaTime waypoints player_health killed =
        update_monsters i (butlast (monsters[i := last monsters]))
          DeltaTime waypoints ph1 (killed + 1)) \<and>
   (i < length bullets \<and>
    UpdateBullet (bullets ! i) DeltaTime monsters = Inr (False, b1, ms1) \<longrightarrow>
      update_bullets i bullets DeltaTime monsters =
        update_bullets i (butlast (bullets[i := last bullets])) DeltaTime ms1)"
proof (intro conjI impI)
  assume "\<forall>j<length monsters. \<exists>m' ph'.
        UpdateMonster (monsters ! j) DeltaTime waypoints player_health = Inr (True, m', ph')"
  then have "\<forall>j. 0 \<le> j \<and> j < length monsters \<longrightarrow> (\<exists>m' ph'.
        UpdateMonster (monsters ! j) DeltaTime waypoints player_health = Inr (True, m', ph'))"
    by simp
  from update_monsters_all_alive [OF this, of killed]
  show "\<exists>monsters'.
         update_monsters 0 monsters DeltaTime waypoints player_health killed =
           Inr (monsters', player_health, killed) \<and>
         length monsters' = length monsters \<and>
         (\<forall>j<length monsters.
            UpdateMonster (monsters ! j) DeltaTime waypoints player_health =
              Inr (True, monsters' ! j, player_health))"
    by auto
next
  assume "\<forall>j<length bullets. \<exists>b' ms'.
        UpdateBullet (bullets ! j) DeltaTime monsters = Inr (True, b', ms')"
  then have "\<forall>j. 0 \<le> j \<and> j < length bullets \<longrightarrow> (\<exists>b' ms'.
        UpdateBullet (bullets ! j) DeltaTime monsters = Inr (True, b', ms'))"
    by simp
  from update_bullets_all_alive [OF this]
  show "\<exists>bullets'.
         update_bullets 0 bullets DeltaTime monsters = Inr (bullets', monsters) \<and>
         length bullets' = length bullets \<and>
         (\<forall>j<length bullets.
            UpdateBullet (bullets ! j) DeltaTime monsters =
              Inr (True, bullets' ! j, monsters))"
    by auto
next
  assume "i < length monsters \<and>
    UpdateMonster (monsters ! i) DeltaTime waypoints player_health = Inr (False, m1, ph1)"
  then show "update_monsters i monsters DeltaTime waypoints player_health killed =
        update_monsters i (butlast (monsters[i := last monsters]))
          DeltaTime waypoints ph1 (killed + 1)"
    by (simp add: update_monsters_dead_step)
next
  assume "i < length bullets \<and>
    UpdateBullet (bullets ! i) DeltaTime monsters = Inr (False, b1, ms1)"
  then show "update_bullets i bullets DeltaTime monsters =
        update_bullets i (butlast (bullets[i := last bullets])) DeltaTime ms1"
    by (simp add: update_bullets_dead_step)
qed

text \<open>
  The theorem at two monsters that live, two bullets that fly on, a dead monster at
  position 0 of three, and a bullet at position 0 of three that hits.
\<close>

theorem compaction_witness:
  "update_monsters 0 [monster_at 100 0 0 0, monster_at 100 0 0 1] (Fin 0)
       [waypoint_at 0 0, waypoint_at 9 0] 100 0 =
     Inr ([monster_at 100 0 0 1, monster_at 100 0 0 1], 100, 0) \<and>
   update_bullets 0 [bullet_at 9 0 0, bullet_at 0 9 0] (Fin 0) [monster_at 100 0 0 0] =
     Inr ([bullet_at 9 0 0, bullet_at 0 9 0], [monster_at 100 0 0 0]) \<and>
   update_monsters 0 [monster_at 0 0 0 0, monster_at 100 0 0 1, monster_at 100 0 0 0] (Fin 0)
       [waypoint_at 0 0, waypoint_at 9 0] 100 0 =
     update_monsters 0 [monster_at 100 0 0 0, monster_at 100 0 0 1] (Fin 0)
       [waypoint_at 0 0, waypoint_at 9 0] 100 1 \<and>
   update_bullets 0 [bullet_at 1 0 0, bullet_at 9 0 0, bullet_at 0 9 0] (Fin 0)
       [monster_at 100 0 0 0] =
     update_bullets 0 [bullet_at 0 9 0, bullet_at 9 0 0] (Fin 0) [monster_at 50 0 0 0]"
proof -
  let ?wps = "[waypoint_at 0 0, waypoint_at 9 0]"
  let ?ms = "[monster_at 100 0 0 0, monster_at 100 0 0 1]"
  let ?bs = "[bullet_at 9 0 0, bullet_at 0 9 0]"
  let ?m = "[monster_at 100 0 0 0]"
  let ?ms3 = "[monster_at 0 0 0 0, monster_at 100 0 0 1, monster_at 100 0 0 0]"
  let ?bs3 = "[bullet_at 1 0 0, bullet_at 9 0 0, bullet_at 0 9 0]"
  have m0: "UpdateMonster (monster_at 100 0 0 0) (Fin 0) ?wps 100 =
              Inr (True, monster_at 100 0 0 1, 100)"
    and m1: "UpdateMonster (monster_at 100 0 0 1) (Fin 0) ?wps 100 =
              Inr (True, monster_at 100 0 0 1, 100)"
    and md: "UpdateMonster (monster_at 0 0 0 0) (Fin 0) ?wps 100 =
              Inr (False, monster_at 0 0 0 0, 100)"
    by (simp_all add: eval_defs sqrt_81)
  have b0: "UpdateBullet (bullet_at 9 0 0) (Fin 0) ?m = Inr (True, bullet_at 9 0 0, ?m)"
    and b1: "UpdateBullet (bullet_at 0 9 0) (Fin 0) ?m = Inr (True, bullet_at 0 9 0, ?m)"
    and bd: "UpdateBullet (bullet_at 1 0 0) (Fin 0) ?m =
              Inr (False, bullet_at 1 0 0, [monster_at 50 0 0 0])"
    by (simp_all add: eval_defs sqrt_81)
  have hm: "\<forall>j<length ?ms. \<exists>m' ph'.
        UpdateMonster (?ms ! j) (Fin 0) ?wps 100 = Inr (True, m', ph')"
    using m0 m1 by (simp add: less_Suc_eq nth_Cons')
  have hb: "\<forall>j<length ?bs. \<exists>b' ms'.
        UpdateBullet (?bs ! j) (Fin 0) ?m = Inr (True, b', ms')"
    using b0 b1 by (simp add: less_Suc_eq nth_Cons')
  from compaction [where monsters = ?ms and DeltaTime = "Fin 0" and waypoints = ?wps
      and player_health = 100 and killed = 0, THEN conjunct1, THEN mp, OF hm]
  obtain ms' where r: "update_monsters 0 ?ms (Fin 0) ?wps 100 0 = Inr (ms', 100, 0)"
    and l: "length ms' = length ?ms"
    and c: "\<forall>j<length ?ms. UpdateMonster (?ms ! j) (Fin 0) ?wps 100 = Inr (True, ms' ! j, 100)"
    by blast
  from c [rule_format, of 0] m0 have "ms' ! 0 = monster_at 100 0 0 1" by simp
  moreover from c [rule_format, of 1] m1 have "ms' ! 1 = monster_at 100 0 0 1" by simp
  ultimately have "ms' = [monster_at 100 0 0 1, monster_at 100 0 0 1]"
    using l by (simp add: list_eq_iff_nth_eq less_Suc_eq nth_Cons')
  with r have A: "update_monsters 0 ?ms (Fin 0) ?wps 100 0 =
      Inr ([monster_at 100 0 0 1, monster_at 100 0 0 1], 100, 0)" by simp
  from compaction [where bullets = ?bs and DeltaTime = "Fin 0" and monsters = ?m, THEN conjunct2, THEN conjunct1,
      THEN mp, OF hb]
  obtain bs' where rb: "update_bullets 0 ?bs (Fin 0) ?m = Inr (bs', ?m)"
    and lb: "length bs' = length ?bs"
    and cb: "\<forall>j<length ?bs. UpdateBullet (?bs ! j) (Fin 0) ?m = Inr (True, bs' ! j, ?m)"
    by blast
  from cb [rule_format, of 0] b0 have "bs' ! 0 = bullet_at 9 0 0" by simp
  moreover from cb [rule_format, of 1] b1 have "bs' ! 1 = bullet_at 0 9 0" by simp
  ultimately have "bs' = ?bs"
    using lb by (simp add: list_eq_iff_nth_eq less_Suc_eq nth_Cons')
  with rb have B: "update_bullets 0 ?bs (Fin 0) ?m = Inr (?bs, ?m)" by simp
  have hmd: "0 < length ?ms3 \<and>
      UpdateMonster (?ms3 ! 0) (Fin 0) ?wps 100 = Inr (False, monster_at 0 0 0 0, 100)"
    using md by simp
  from compaction [where monsters = ?ms3 and DeltaTime = "Fin 0" and waypoints = ?wps
      and player_health = 100 and killed = 0 and i = 0 and ?m1.0 = "monster_at 0 0 0 0"
      and ?ph1.0 = 100,
      THEN conjunct2, THEN conjunct2, THEN conjunct1, THEN mp, OF hmd]
  have C: "update_monsters 0 ?ms3 (Fin 0) ?wps 100 0 =
      update_monsters 0 ?ms (Fin 0) ?wps 100 1" by simp
  have hbd: "0 < length ?bs3 \<and>
      UpdateBullet (?bs3 ! 0) (Fin 0) ?m = Inr (False, bullet_at 1 0 0, [monster_at 50 0 0 0])"
    using bd by simp
  from compaction [where bullets = ?bs3 and DeltaTime = "Fin 0" and monsters = ?m and i = 0
      and ?b1.0 = "bullet_at 1 0 0" and ?ms1.0 = "[monster_at 50 0 0 0]",
      THEN conjunct2, THEN conjunct2, THEN conjunct2, THEN mp, OF hbd]
  have D: "update_bullets 0 ?bs3 (Fin 0) ?m =
      update_bullets 0 [bullet_at 0 9 0, bullet_at 9 0 0] (Fin 0) [monster_at 50 0 0 0]"
    by simp
  from A B C D show ?thesis by blast
qed

end
